theory Spec2Isabelle
  imports Main "HOL-Library.Word"
begin

section \<open>Shared vocabulary\<close>

text \<open>
  Go's \<open>[]byte\<close> and \<open>string\<close> are both byte sequences; \<open>char\<close> is an 8-bit byte.
\<close>

type_synonym bytes = string

text \<open>
  A Go \<open>error\<close> value. \<open>New\<close> is \<open>errors.New\<close>/\<open>errors.Errorf\<close> with the formatted
  message, \<open>Wrap\<close> is \<open>errors.Wrap(err, msg)\<close>, and \<open>External\<close> is an error value that a
  collaborator outside these two files returned (its content is opaque: \<open>'x\<close>).
\<close>

datatype 'x error = New string | Wrap "'x error" string | External 'x


section \<open>encoding/base64 and encoding/json\<close>

text \<open>
  The certificate codec calls \<open>base64.StdEncoding\<close> and \<open>json.Unmarshal\<close> of Go's standard
  library. \<open>encodeStd\<close> is the alphabet of the standard encoding and \<open>=\<close> its padding.
\<close>

definition byte :: "char \<Rightarrow> nat" where
  "byte c = of_char c"

definition encodeStd :: string where
  "encodeStd = ''ABCDEFGHIJKLMNOPQRSTUVWXYZabcdefghijklmnopqrstuvwxyz0123456789+/''"

text \<open>
  \<open>decodeMap\<close>: the position of a character in the alphabet, \<open>None\<close> for the entry 0xff of
  the Go table.
\<close>

fun index_of :: "'a list \<Rightarrow> 'a \<Rightarrow> nat option" where
  "index_of [] c = None"
| "index_of (x # xs) c = (if x = c then Some 0 else map_option Suc (index_of xs c))"

definition decodeMap :: "char \<Rightarrow> nat option" where
  "decodeMap c = index_of encodeStd c"

text \<open>
  \<open>EncodeToString\<close>: three bytes give four characters; a last group of one or two bytes
  is padded.
\<close>

fun EncodeToString :: "bytes \<Rightarrow> string" where
  "EncodeToString [] = []"
| "EncodeToString [a] =
     [encodeStd ! (byte a div 4), encodeStd ! ((byte a mod 4) * 16), CHR ''='', CHR ''='']"
| "EncodeToString [a, b] =
     [encodeStd ! (byte a div 4), encodeStd ! ((byte a mod 4) * 16 + byte b div 16),
      encodeStd ! ((byte b mod 16) * 4), CHR ''='']"
| "EncodeToString (a # b # c # src) =
     [encodeStd ! (byte a div 4), encodeStd ! ((byte a mod 4) * 16 + byte b div 16),
      encodeStd ! ((byte b mod 16) * 4 + byte c div 64), encodeStd ! (byte c mod 64)]
     @ EncodeToString src"

text \<open>
  \<open>DecodeString\<close>. The decoder skips carriage returns and line feeds wherever they stand,
  so the model removes them first and then decodes quantum by quantum: four characters
  of the alphabet, or a last quantum of two characters and \<open>==\<close> or of three and \<open>=\<close>,
  with nothing behind the padding. The standard encoding is not strict: the unused low
  bits of a padded quantum are dropped. \<open>None\<close> is a \<open>CorruptInputError\<close>.
\<close>

fun decodeQuanta :: "string \<Rightarrow> bytes option" where
  "decodeQuanta [] = Some []"
| "decodeQuanta (i0 # i1 # i2 # i3 # src) =
     (case (decodeMap i0, decodeMap i1) of
        (Some d0, Some d1) \<Rightarrow>
          if i2 = CHR ''=''
          then (if i3 = CHR ''='' \<and> src = [] then Some [char_of (d0 * 4 + d1 div 16)] else None)
          else
            (case decodeMap i2 of
               None \<Rightarrow> None
             | Some d2 \<Rightarrow>
                 if i3 = CHR ''=''
                 then (if src = []
                       then Some [char_of (d0 * 4 + d1 div 16),
                                  char_of ((d1 mod 16) * 16 + d2 div 4)]
                       else None)
                 else
                   (case decodeMap i3 of
                      None \<Rightarrow> None
                    | Some d3 \<Rightarrow>
                        map_option
                          (\<lambda>dst. char_of (d0 * 4 + d1 div 16)
                                 # char_of ((d1 mod 16) * 16 + d2 div 4)
                                 # char_of ((d2 mod 4) * 64 + d3) # dst)
                          (decodeQuanta src)))
      | _ \<Rightarrow> None)"
| "decodeQuanta _ = None"

definition DecodeString :: "string \<Rightarrow> bytes option" where
  "DecodeString s = decodeQuanta (filter (\<lambda>c. c \<noteq> CHR 0x0A \<and> c \<noteq> CHR 0x0D) s)"

text \<open>
  \<open>json.Unmarshal(data, &s)\<close> for a string variable \<open>s\<close> that holds the empty string. The
  document may be surrounded by JSON white space. The literal \<open>null\<close> leaves \<open>s\<close> as it
  is; a string literal without backslash and without a byte beyond ASCII decodes to its
  content, provided it holds no quote and no control character; every literal that has
  an escape sequence or a byte beyond ASCII is decoded by the parameter \<open>unquote\<close>, which
  stands for that part of the library. Anything else is an error (\<open>None\<close>): a syntax
  error, or a value of another JSON type.
\<close>

definition isSpace :: "char \<Rightarrow> bool" where
  "isSpace c = (c = CHR 0x20 \<or> c = CHR 0x09 \<or> c = CHR 0x0D \<or> c = CHR 0x0A)"

definition trimSpace :: "bytes \<Rightarrow> bytes" where
  "trimSpace s = rev (dropWhile isSpace (rev (dropWhile isSpace s)))"

definition json_Unmarshal_string :: "(bytes \<Rightarrow> string option) \<Rightarrow> bytes \<Rightarrow> string option" where
  "json_Unmarshal_string unquote data =
     (let t = trimSpace data in
      if t = ''null'' then Some []
      else if 2 \<le> length t \<and> hd t = CHR 0x22 \<and> last t = CHR 0x22
      then
        (let body = butlast (tl t) in
         if list_all (\<lambda>c. c \<noteq> CHR 0x5C \<and> byte c < 128) body
         then (if list_all (\<lambda>c. c \<noteq> CHR 0x22 \<and> 32 \<le> byte c) body then Some body else None)
         else unquote t)
      else None)"

section \<open>api/ssh.go: data\<close>

text \<open>
  Modelled from the spec: the two certificate kinds \<open>provisioner.SSHUserCert\<close> and
  \<open>provisioner.SSHHostCert\<close> are declared in the provisioner package, which is not among
  the source files; the spec names them "user" and "host".
\<close>

definition SSHUserCert :: string where
  "SSHUserCert = ''user''"

definition SSHHostCert :: string where
  "SSHHostCert = ''host''"

text \<open>
  \<open>ssh.Certificate\<close> of golang.org/x/crypto/ssh, with \<open>ssh.UserCert = 1\<close> and
  \<open>ssh.HostCert = 2\<close>. A bare key is opaque (\<open>'k\<close>); the interface \<open>ssh.PublicKey\<close> holds
  either a bare key or a certificate.
\<close>

record 'k Certificate =
  crt_Nonce :: bytes
  crt_Key :: 'k
  crt_Serial :: "64 word"
  crt_CertType :: "32 word"
  crt_KeyId :: string
  crt_ValidPrincipals :: "string list"
  crt_ValidAfter :: "64 word"
  crt_ValidBefore :: "64 word"
  crt_CriticalOptions :: "(string \<times> string) list"
  crt_Extensions :: "(string \<times> string) list"
  crt_SignatureKey :: 'k
  crt_Signature :: bytes

datatype 'k PublicKey = BareKey 'k | CertKey "'k Certificate"

definition UserCert :: "32 word" where
  "UserCert = 1"

definition HostCert :: "32 word" where
  "HostCert = 2"

text \<open>\<open>SignSSHRequest\<close>; \<open>AddUserPublicKey\<close> is \<open>None\<close> for a nil slice.\<close>

record 'td SignSSHRequest =
  req_PublicKey :: bytes
  req_OTT :: string
  req_CertType :: string
  req_Principals :: "string list"
  req_ValidAfter :: 'td
  req_ValidBefore :: 'td
  req_AddUserPublicKey :: "bytes option"

text \<open>\<open>provisioner.SSHOptions\<close>, as the handler fills it.\<close>

record 'td SSHOptions =
  opt_CertType :: string
  opt_Principals :: "string list"
  opt_ValidBefore :: 'td
  opt_ValidAfter :: 'td

text \<open>\<open>SSHCertificate\<close> embeds a \<open>*ssh.Certificate\<close>, which may be nil.\<close>

type_synonym 'k SSHCertificate = "'k Certificate option"

record 'k SignSSHResponse =
  resp_Certificate :: "'k SSHCertificate"
  resp_AddUserCertificate :: "'k SSHCertificate option"

record SSHConfigRequest =
  cfg_Type :: string
  cfg_Data :: "string \<rightharpoonup> string"

record 't SSHConfigResponse =
  UserTemplates :: "'t list"
  HostTemplates :: "'t list"

text \<open>
  The interface \<open>SSHAuthority\<close> together with the \<open>Authorize\<close> method the handler calls on
  \<open>h.Authority\<close>. Each method returns either an error or its value.
\<close>

record ('x, 'k, 'td, 'o, 't) SSHAuthority =
  Authorize_a :: "string \<Rightarrow> 'x + 'o list"
  SignSSH_a :: "'k PublicKey \<Rightarrow> 'td SSHOptions \<Rightarrow> 'o list \<Rightarrow> 'x + 'k Certificate"
  SignSSHAddUser_a :: "'k PublicKey \<Rightarrow> 'k Certificate \<Rightarrow> 'x + 'k Certificate"
  GetSSHConfig_a :: "string \<Rightarrow> (string \<rightharpoonup> string) \<Rightarrow> 'x + 't list"

text \<open>
  Modelled from the spec: the helpers \<open>BadRequest\<close>, \<open>Unauthorized\<close>, \<open>Forbidden\<close> and
  \<open>InternalServerError\<close> live in the api package outside the source files; the spec maps
  them to the transport outcomes 400, 401, 403 and 500.
\<close>

datatype 'x http_error = HTTPError nat "'x error"

definition BadRequest :: "'x error \<Rightarrow> 'x http_error" where
  "BadRequest err = HTTPError 400 err"

definition Unauthorized :: "'x error \<Rightarrow> 'x http_error" where
  "Unauthorized err = HTTPError 401 err"

definition Forbidden :: "'x error \<Rightarrow> 'x http_error" where
  "Forbidden err = HTTPError 403 err"

definition InternalServerError :: "'x error \<Rightarrow> 'x http_error" where
  "InternalServerError err = HTTPError 500 err"

text \<open>
  What a handler writes: \<open>WriteError\<close>, or a JSON body under a status code (200 unless
  \<open>WriteHeader\<close> was called first).
\<close>

datatype ('x, 'b) response = WriteError "'x http_error" | JSON nat 'b

text \<open>The calls a handler makes on its authority, in order.\<close>

datatype ('k, 'td, 'o) call =
  CallAuthorize string
| CallSignSSH "'k PublicKey" "'td SSHOptions" "'o list"
| CallSignSSHAddUser "'k PublicKey" "'k Certificate"

section \<open>api/ssh.go: request validation\<close>

definition SignSSHRequest_Validate :: "'td SignSSHRequest \<Rightarrow> 'x error option" where
  "SignSSHRequest_Validate s =
     (if req_CertType s \<noteq> '''' \<and> req_CertType s \<noteq> SSHUserCert \<and> req_CertType s \<noteq> SSHHostCert
      then Some (New (''unknown certType '' @ req_CertType s))
      else if length (req_PublicKey s) = 0 then Some (New ''missing or empty publicKey'')
      else if length (req_OTT s) = 0 then Some (New ''missing or empty ott'')
      else None)"

text \<open>
  \<open>SSHConfigRequest.Validate\<close> has a pointer receiver and rewrites an empty type, so the
  model returns the request as the method leaves it.
\<close>

definition SSHConfigRequest_Validate ::
  "SSHConfigRequest \<Rightarrow> 'x error option \<times> SSHConfigRequest" where
  "SSHConfigRequest_Validate r =
     (if cfg_Type r = '''' then (None, r\<lparr>cfg_Type := SSHUserCert\<rparr>)
      else if cfg_Type r = SSHUserCert \<or> cfg_Type r = SSHHostCert then (None, r)
      else (Some (New (''unsupported type '' @ cfg_Type r)), r))"

section \<open>api/ssh.go: handlers\<close>

text \<open>
  \<open>caHandler.SSHConfig\<close>. The first argument of the handler after the authority is what
  \<open>ReadJSON(r.Body, &body)\<close> produced.
\<close>

definition SSHConfig ::
  "('x, 'k, 'td, 'o, 't) SSHAuthority \<Rightarrow> 'x + SSHConfigRequest
     \<Rightarrow> ('x, 't SSHConfigResponse) response" where
  "SSHConfig h rd =
     (case rd of
        Inl err \<Rightarrow> WriteError (BadRequest (Wrap (External err) ''error reading request body''))
      | Inr body0 \<Rightarrow>
          (case SSHConfigRequest_Validate body0 of
             (Some err, _) \<Rightarrow> WriteError (BadRequest err)
           | (None, body) \<Rightarrow>
               (case GetSSHConfig_a h (cfg_Type body) (cfg_Data body) of
                  Inl err \<Rightarrow> WriteError (InternalServerError (External err))
                | Inr ts \<Rightarrow>
                    if cfg_Type body = SSHUserCert
                    then JSON 200 \<lparr>UserTemplates = ts, HostTemplates = []\<rparr>
                    else if cfg_Type body = SSHHostCert
                    then JSON 200 \<lparr>UserTemplates = ts, HostTemplates = []\<rparr>
                    else WriteError (InternalServerError (New ''it should hot get here'')))))"

text \<open>
  Lines 194-201 of \<open>caHandler.SignSSH\<close>: the secondary key stays nil unless the request
  carries one, and a key that does not parse ends the request.
\<close>

definition parseAddUserPublicKey ::
  "(bytes \<Rightarrow> 'x + 'k PublicKey) \<Rightarrow> 'td SignSSHRequest \<Rightarrow> 'x + 'k PublicKey option" where
  "parseAddUserPublicKey ParsePublicKey body =
     (case req_AddUserPublicKey body of
        None \<Rightarrow> Inr None
      | Some b \<Rightarrow> (case ParsePublicKey b of Inl err \<Rightarrow> Inl err | Inr k \<Rightarrow> Inr (Some k)))"

text \<open>Lines 203-208: the options handed to the authority.\<close>

definition requestOptions :: "'td SignSSHRequest \<Rightarrow> 'td SSHOptions" where
  "requestOptions body =
     \<lparr>opt_CertType = req_CertType body, opt_Principals = req_Principals body,
      opt_ValidBefore = req_ValidBefore body, opt_ValidAfter = req_ValidAfter body\<rparr>"

text \<open>
  \<open>caHandler.SignSSH\<close>, with \<open>ssh.ParsePublicKey\<close> as a parameter. The result pairs the
  response with the calls made on the authority. \<open>logOtt\<close> only annotates the request log
  and is left out.
\<close>

definition SignSSH ::
  "(bytes \<Rightarrow> 'x + 'k PublicKey) \<Rightarrow> ('x, 'k, 'td, 'o, 't) SSHAuthority
     \<Rightarrow> 'x + 'td SignSSHRequest
     \<Rightarrow> ('x, 'k SignSSHResponse) response \<times> ('k, 'td, 'o) call list" where
  "SignSSH ParsePublicKey h rd =
     (case rd of
        Inl err \<Rightarrow> (WriteError (BadRequest (Wrap (External err) ''error reading request body'')), [])
      | Inr body \<Rightarrow>
     (case SignSSHRequest_Validate body of
        Some err \<Rightarrow> (WriteError (BadRequest err), [])
      | None \<Rightarrow>
     (case ParsePublicKey (req_PublicKey body) of
        Inl err \<Rightarrow> (WriteError (BadRequest (Wrap (External err) ''error parsing publicKey'')), [])
      | Inr publicKey \<Rightarrow>
     (case parseAddUserPublicKey ParsePublicKey body of
        Inl err \<Rightarrow>
          (WriteError (BadRequest (Wrap (External err) ''error parsing addUserPublicKey'')), [])
      | Inr addUserPublicKey \<Rightarrow>
     (let opts = requestOptions body in
     (case Authorize_a h (req_OTT body) of
        Inl err \<Rightarrow> (WriteError (Unauthorized (External err)), [CallAuthorize (req_OTT body)])
      | Inr signOpts \<Rightarrow>
     (case SignSSH_a h publicKey opts signOpts of
        Inl err \<Rightarrow>
          (WriteError (Forbidden (External err)),
           [CallAuthorize (req_OTT body), CallSignSSH publicKey opts signOpts])
      | Inr cert \<Rightarrow>
          if addUserPublicKey \<noteq> None \<and> crt_CertType cert = UserCert
             \<and> length (crt_ValidPrincipals cert) = 1
          then
            (case SignSSHAddUser_a h (the addUserPublicKey) cert of
               Inl err \<Rightarrow>
                 (WriteError (Forbidden (External err)),
                  [CallAuthorize (req_OTT body), CallSignSSH publicKey opts signOpts,
                   CallSignSSHAddUser (the addUserPublicKey) cert])
             | Inr addUserCert \<Rightarrow>
                 (JSON 201 \<lparr>resp_Certificate = Some cert,
                            resp_AddUserCertificate = Some (Some addUserCert)\<rparr>,
                  [CallAuthorize (req_OTT body), CallSignSSH publicKey opts signOpts,
                   CallSignSSHAddUser (the addUserPublicKey) cert]))
          else
            (JSON 201 \<lparr>resp_Certificate = Some cert, resp_AddUserCertificate = None\<rparr>,
             [CallAuthorize (req_OTT body), CallSignSSH publicKey opts signOpts]))))))))"

section \<open>api/ssh.go: the certificate codec\<close>

text \<open>
  What the codec uses of golang.org/x/crypto/ssh: \<open>Certificate.Marshal\<close>,
  \<open>ssh.ParsePublicKey\<close>, and the Go type name that \<open>%T\<close> prints for a bare key.
\<close>

record ('x, 'k) ssh_pkg =
  cert_Marshal :: "'k Certificate \<Rightarrow> bytes"
  ssh_ParsePublicKey :: "bytes \<Rightarrow> 'x + 'k PublicKey"
  typeName :: "'k \<Rightarrow> string"

text \<open>The errors of the three libraries, which the codec wraps.\<close>

datatype 'x lib_error = JSONError | CorruptInputError | SSHError 'x

text \<open>\<open>SSHCertificate.MarshalJSON\<close>; its error result is always nil.\<close>

definition SSHCertificate_MarshalJSON :: "('x, 'k) ssh_pkg \<Rightarrow> 'k SSHCertificate \<Rightarrow> bytes" where
  "SSHCertificate_MarshalJSON ssh c =
     (case c of
        None \<Rightarrow> ''null''
      | Some cert \<Rightarrow> [CHR 0x22] @ EncodeToString (cert_Marshal ssh cert) @ [CHR 0x22])"

text \<open>
  \<open>SSHCertificate.UnmarshalJSON\<close>: the error, or the pointer the method stores in
  \<open>c.Certificate\<close>.
\<close>

definition SSHCertificate_UnmarshalJSON ::
  "(bytes \<Rightarrow> string option) \<Rightarrow> ('x, 'k) ssh_pkg \<Rightarrow> bytes
     \<Rightarrow> 'x lib_error error + 'k SSHCertificate" where
  "SSHCertificate_UnmarshalJSON unquote ssh data =
     (case json_Unmarshal_string unquote data of
        None \<Rightarrow> Inl (Wrap (External JSONError) ''error decoding certificate'')
      | Some s \<Rightarrow>
          if s = [] then Inr None
          else
            (case DecodeString s of
               None \<Rightarrow> Inl (Wrap (External CorruptInputError) ''error decoding ssh certificate'')
             | Some certData \<Rightarrow>
                 (case ssh_ParsePublicKey ssh certData of
                    Inl err \<Rightarrow>
                      Inl (Wrap (External (SSHError err)) ''error parsing ssh certificate'')
                  | Inr pub \<Rightarrow>
                      (case pub of
                         CertKey cert \<Rightarrow> Inr (Some cert)
                       | BareKey k \<Rightarrow>
                           Inl (New (''error decoding ssh certificate: '' @ typeName ssh k
                                     @ '' is not an *ssh.Certificate''))))))"

text \<open>The bytes that \<open>EncodeToString\<close> produces.\<close>

definition base64Char :: "char \<Rightarrow> bool" where
  "base64Char c = (c \<in> set encodeStd \<or> c = CHR ''='')"

section \<open>net/url\<close>


















definition stringContainsCTLByte :: "string \<Rightarrow> bool" where
  "stringContainsCTLByte s = list_ex (\<lambda>c. byte c < 32 \<or> byte c = 127) s"


















section \<open>authority/authorize.go: data\<close>

text \<open>
  \<open>idUsed\<close>; \<open>UsedAt\<close> is an \<open>int64\<close> of Unix seconds.
\<close>

record idUsed =
  UsedAt :: "64 word"
  Subject :: string

text \<open>
  \<open>Claims\<close>: the embedded \<open>jose.Claims\<close> followed by the step attributes. A
  \<open>jose.NumericDate\<close> is an \<open>int64\<close> of seconds since the epoch, zero when the token
  carries none.
\<close>

record Claims =
  clm_Issuer :: string
  clm_Subject :: string
  clm_Audience :: "string list"
  clm_Expiry :: "64 word"
  clm_NotBefore :: "64 word"
  clm_IssuedAt :: "64 word"
  clm_ID :: string
  clm_SANs :: "string list"
  clm_Email :: string
  clm_Nonce :: string

text \<open>
  A wall-clock instant of \<open>time.Time\<close>: seconds since the Unix epoch and nanoseconds
  within the second. \<open>Before\<close> compares wall-clock instants when one of the two has no
  monotonic reading, as here.

  \<open>NumericDate.Time()\<close> is \<open>time.Unix(n, 0)\<close>, which stores \<open>n + unixToInternal\<close> as an
  \<open>int64\<close> of seconds since the year 1: the sum wraps around, so a date of
  \<open>2^63 - 62135596800\<close> seconds or more denotes an instant far in the past.
\<close>

record Time =
  t_sec :: int
  t_nsec :: nat

definition Before :: "Time \<Rightarrow> Time \<Rightarrow> bool" where
  "Before t u = (t_sec t < t_sec u \<or> (t_sec t = t_sec u \<and> t_nsec t < t_nsec u))"

definition unixToInternal :: "64 word" where
  "unixToInternal = 62135596800"

definition NumericDate_Time :: "64 word \<Rightarrow> Time" where
  "NumericDate_Time n =
     \<lparr>t_sec = sint (n + unixToInternal) - sint unixToInternal, t_nsec = 0\<rparr>"

definition Time_Unix :: "Time \<Rightarrow> 64 word" where
  "Time_Unix t = word_of_int (t_sec t)"

text \<open>
  Modelled from the spec: \<open>provisioner.Type\<close> is declared in the provisioner package,
  outside the source files. The spec names a single-use-token kind, which holds a
  signing key of its own (\<open>TypeJWK\<close>, the only kind this file tests for), and an
  audience-bound kind (\<open>TypeOIDC\<close>), among others. \<open>Provisioner\<close> is the part of
  \<open>provisioner.Interface\<close> that \<open>Authorize\<close> calls.
\<close>

datatype Type = TypeJWK | TypeOIDC | TypeOther nat

record ('x, 'o) Provisioner =
  GetName :: string
  GetType :: Type
  Authorize_p :: "string \<Rightarrow> 'x + 'o list"

record AuthConfig =
  DisableIssuedAtCheck :: bool

record Config =
  AuthorityConfig :: "AuthConfig option"

text \<open>
  The fields of \<open>Authority\<close> that \<open>Authorize\<close> reads or writes. \<open>ottMap\<close> is the
  \<open>sync.Map\<close> from token id to \<open>idUsed\<close>; \<open>LoadByToken\<close> is the lookup of the provisioner
  collection \<open>a.provisioners\<close>.
\<close>

record ('tok, 'x, 'o) Authority =
  config :: Config
  startTime :: Time
  ottMap :: "string \<rightharpoonup> idUsed"
  LoadByToken :: "'tok \<Rightarrow> Claims \<Rightarrow> ('x, 'o) Provisioner option"

text \<open>The two calls \<open>Authorize\<close> makes on the jose package.\<close>

record ('tok, 'x) jose =
  ParseSigned :: "string \<Rightarrow> 'x + 'tok"
  UnsafeClaimsWithoutVerification :: "'tok \<Rightarrow> 'x + Claims"

text \<open>
  The error \<open>Authorize\<close> returns: an \<open>apiError\<close> of its own (error, status code, context),
  or the error of the provisioner's \<open>Authorize\<close>, returned as it is.
\<close>

datatype 'x authError = apiError "'x error" nat "(string \<times> string) list" | Delegated 'x

text \<open>
  The effects of one \<open>Authorize\<close> call in order: the \<open>LoadOrStore\<close> on \<open>ottMap\<close> (key,
  value offered, and whether the key was already there), and the call of the
  provisioner's \<open>Authorize\<close> (provisioner name and token).
\<close>

datatype event = EvLoadOrStore string idUsed bool | EvProvisionerAuthorize string string

section \<open>authority/authorize.go: Authorize\<close>

text \<open>\<open>sync.Map.LoadOrStore\<close>: the value now under the key, whether it was loaded, the map.\<close>

definition LoadOrStore :: "('a \<rightharpoonup> 'b) \<Rightarrow> 'a \<Rightarrow> 'b \<Rightarrow> ('b \<times> bool) \<times> ('a \<rightharpoonup> 'b)" where
  "LoadOrStore m k v =
     (case m k of Some x \<Rightarrow> ((x, True), m) | None \<Rightarrow> ((v, False), m(k \<mapsto> v)))"

text \<open>Line 77: whether the issued-at check is on.\<close>

definition issuedAtCheckEnabled :: "('tok, 'x, 'o) Authority \<Rightarrow> bool" where
  "issuedAtCheckEnabled a =
     (case AuthorityConfig (config a) of
        None \<Rightarrow> False
      | Some c \<Rightarrow> \<not> DisableIssuedAtCheck c)"

text \<open>Lines 77-78: the test that rejects a token issued before the start of the CA.\<close>

definition issuedBeforeBootstrap :: "('tok, 'x, 'o) Authority \<Rightarrow> Claims \<Rightarrow> bool" where
  "issuedBeforeBootstrap a claims =
     (issuedAtCheckEnabled a
      \<and> 0 < sint (clm_IssuedAt claims)
      \<and> Before (NumericDate_Time (clm_IssuedAt claims)) (startTime a))"

text \<open>
  \<open>Authority.Authorize\<close>. \<open>now\<close> is what \<open>time.Now()\<close> returns when the call reaches line
  94. The result is the returned pair (as a sum), the authority afterwards, and the
  effects in order.
\<close>

definition Authorize ::
  "('tok, 'x) jose \<Rightarrow> Time \<Rightarrow> ('tok, 'x, 'o) Authority \<Rightarrow> string
     \<Rightarrow> ('x authError + 'o list) \<times> ('tok, 'x, 'o) Authority \<times> event list" where
  "Authorize j now a ott =
     (let errContext = [(''ott'', ott)] in
      case ParseSigned j ott of
        Inl err \<Rightarrow>
          (Inl (apiError (Wrap (External err) ''authorize: error parsing token'') 401 errContext),
           a, [])
      | Inr token \<Rightarrow>
     (case UnsafeClaimsWithoutVerification j token of
        Inl err \<Rightarrow> (Inl (apiError (External err) 401 errContext), a, [])
      | Inr claims \<Rightarrow>
          if issuedBeforeBootstrap a claims
          then (Inl (apiError
                      (New ''token issued before the bootstrap of certificate authority'')
                      401 errContext), a, [])
          else
     (case LoadByToken a token claims of
        None \<Rightarrow>
          (Inl (apiError (New ''authorize: provisioner not found'') 401 errContext), a, [])
      | Some p \<Rightarrow>
          if GetType p = TypeJWK \<and> clm_ID claims \<noteq> ''''
          then
            (let used = \<lparr>UsedAt = Time_Unix now, Subject = clm_Subject claims\<rparr> in
             case LoadOrStore (ottMap a) (clm_ID claims) used of
               ((_, True), m) \<Rightarrow>
                 (Inl (apiError (New ''token already used'') 401 errContext),
                  a\<lparr>ottMap := m\<rparr>, [EvLoadOrStore (clm_ID claims) used True])
             | ((_, False), m) \<Rightarrow>
                 (case Authorize_p p ott of Inl err \<Rightarrow> Inl (Delegated err) | Inr so \<Rightarrow> Inr so,
                  a\<lparr>ottMap := m\<rparr>,
                  [EvLoadOrStore (clm_ID claims) used False,
                   EvProvisionerAuthorize (GetName p) ott]))
          else
            (case Authorize_p p ott of Inl err \<Rightarrow> Inl (Delegated err) | Inr so \<Rightarrow> Inr so,
             a, [EvProvisionerAuthorize (GetName p) ott]))))"

text \<open>The error of lines 79-80.\<close>

definition bootstrapError :: "string \<Rightarrow> 'x authError" where
  "bootstrapError ott =
     apiError (New ''token issued before the bootstrap of certificate authority'') 401
       [(''ott'', ott)]"


section \<open>authority/authorize.go: audiences\<close>





section \<open>Vocabulary for URL-shaped audiences\<close>








section \<open>Concrete instances\<close>

text \<open>
  A small authority, request, token set and certificate authority on which the theorems
  below are evaluated.
\<close>

definition example_ParsePublicKey :: "bytes \<Rightarrow> string + string PublicKey" where
  "example_ParsePublicKey b = (if b = [] then Inl ''ssh: short read'' else Inr (BareKey b))"

definition example_Certificate :: "string \<Rightarrow> 32 word \<Rightarrow> string list \<Rightarrow> string Certificate" where
  "example_Certificate k t ps =
     \<lparr>crt_Nonce = ''n'', crt_Key = k, crt_Serial = 7, crt_CertType = t, crt_KeyId = ''id'',
      crt_ValidPrincipals = ps, crt_ValidAfter = 0, crt_ValidBefore = 100,
      crt_CriticalOptions = [], crt_Extensions = [], crt_SignatureKey = ''ca'',
      crt_Signature = ''sig''\<rparr>"

definition keyBytes :: "string PublicKey \<Rightarrow> string" where
  "keyBytes k = (case k of BareKey b \<Rightarrow> b | CertKey c \<Rightarrow> crt_Key c)"

definition example_authority :: "(string, string, nat, string, string) SSHAuthority" where
  "example_authority =
     \<lparr>Authorize_a = (\<lambda>ott. if ott = ''token'' then Inr [''opt''] else Inl ''invalid token''),
      SignSSH_a = (\<lambda>k opts so.
         Inr (example_Certificate (keyBytes k)
               (if opt_CertType opts = SSHHostCert then HostCert else UserCert)
               (opt_Principals opts))),
      SignSSHAddUser_a = (\<lambda>k cert.
         Inr (example_Certificate (keyBytes k) UserCert [''provisioner''])),
      GetSSHConfig_a = (\<lambda>typ data.
         case data ''Name'' of None \<Rightarrow> Inl ''missing Name''
         | Some n \<Rightarrow> Inr [typ @ '' config for '' @ n])\<rparr>"

definition example_request :: "nat SignSSHRequest" where
  "example_request =
     \<lparr>req_PublicKey = ''K'', req_OTT = ''token'', req_CertType = ''user'',
      req_Principals = [''alice''], req_ValidAfter = 0, req_ValidBefore = 0,
      req_AddUserPublicKey = Some ''A''\<rparr>"

definition example_claims :: "string \<Rightarrow> Claims" where
  "example_claims tok =
     \<lparr>clm_Issuer = ''step-cli'', clm_Subject = ''alice'',
      clm_Audience = [''https://ca.example/sign''], clm_Expiry = 2000, clm_NotBefore = 0,
      clm_IssuedAt = (if tok = ''no-iat'' then 0 else if tok = ''negative-iat'' then - 1
                      else if tok = ''stale'' then 50
                      else if tok = ''wrapping-iat'' then 9223372036854774784 else 1500),
      clm_ID = (if tok = ''no-id'' then '''' else ''id-'' @ tok),
      clm_SANs = [], clm_Email = '''', clm_Nonce = ''''\<rparr>"

definition example_jose :: "(string, string) jose" where
  "example_jose =
     \<lparr>ParseSigned = (\<lambda>s. if s = '''' then Inl ''compact JWS format must have three parts''
                           else Inr s),
      UnsafeClaimsWithoutVerification = (\<lambda>tok. Inr (example_claims tok))\<rparr>"

definition example_Provisioner :: "(string, string) Provisioner" where
  "example_Provisioner =
     \<lparr>GetName = ''jwk'', GetType = TypeJWK,
      Authorize_p = (\<lambda>ott. if ott = ''forged'' then Inl ''invalid signature''
                            else Inr [''opt''])\<rparr>"

definition example_ca :: "(string, string, string) Authority" where
  "example_ca =
     \<lparr>config = \<lparr>AuthorityConfig = Some \<lparr>DisableIssuedAtCheck = False\<rparr>\<rparr>,
      startTime = \<lparr>t_sec = 1000, t_nsec = 0\<rparr>,
      ottMap = Map.empty,
      LoadByToken = (\<lambda>tok c. if clm_Issuer c = ''step-cli'' then Some example_Provisioner
                               else None)\<rparr>"

definition example_now :: Time where
  "example_now = \<lparr>t_sec = 1600, t_nsec = 5\<rparr>"


definition example_ssh :: "(string, string) ssh_pkg" where
  "example_ssh =
     \<lparr>cert_Marshal = (\<lambda>c. ''cert:'' @ crt_Key c),
      ssh_ParsePublicKey = (\<lambda>b.
         if b = ''cert:K'' then Inr (CertKey (example_Certificate ''K'' UserCert [''alice'']))
         else if take 4 b = ''key:'' then Inr (BareKey (drop 4 b))
         else Inl ''ssh: unknown key algorithm''),
      typeName = (\<lambda>k. ''*ssh.ed25519PublicKey'')\<rparr>"

definition example_unquote :: "bytes \<Rightarrow> string option" where
  "example_unquote t = None"

section \<open>Properties of the handlers\<close>

text \<open>
  Claim C2. Take a sign request that passes validation, whose keys parse, whose token is
  authorized and whose primary certificate \<open>cert\<close> is signed. The handler asks the
  authority for the add-user certificate exactly when the request carried a secondary
  key, \<open>cert\<close> is a user certificate and \<open>cert\<close> has exactly one principal. In that case
  the call is made with the parsed secondary key and with \<open>cert\<close> itself, whose principal
  list is the single principal; the response carries what the authority returned (201
  with the add-user certificate, or 403 when the authority's signing fails). For a host
  certificate, for two or more principals, for none, or without a secondary key, the
  response is 201 with the primary certificate only and no such call is made. So with an
  authority whose add-user signing does not fail, the response carries an add-user
  certificate if and only if the three conditions hold.
\<close>

theorem SignSSH_addUser_rule:
  assumes v: "SignSSHRequest_Validate body = (None :: 'x error option)"
    and pk: "ParsePublicKey (req_PublicKey body) = (Inr publicKey :: 'x + 'k PublicKey)"
    and ak: "parseAddUserPublicKey ParsePublicKey body = Inr addUserPublicKey"
    and au: "Authorize_a h (req_OTT body) = Inr signOpts"
    and sg: "SignSSH_a h publicKey (requestOptions body) signOpts = Inr cert"
  shows "((\<exists>k c. CallSignSSHAddUser k c \<in> set (snd (SignSSH ParsePublicKey h (Inr body))))
            \<longleftrightarrow> req_AddUserPublicKey body \<noteq> None \<and> crt_CertType cert = UserCert
                \<and> length (crt_ValidPrincipals cert) = 1)
       \<and> (req_AddUserPublicKey body \<noteq> None \<and> crt_CertType cert = UserCert
                \<and> length (crt_ValidPrincipals cert) = 1 \<longrightarrow>
            (\<exists>b k p. req_AddUserPublicKey body = Some b \<and> ParsePublicKey b = Inr k
               \<and> crt_ValidPrincipals cert = [p]
               \<and> snd (SignSSH ParsePublicKey h (Inr body)) =
                    [CallAuthorize (req_OTT body),
                     CallSignSSH publicKey (requestOptions body) signOpts,
                     CallSignSSHAddUser k cert]
               \<and> fst (SignSSH ParsePublicKey h (Inr body)) =
                    (case SignSSHAddUser_a h k cert of
                       Inl err \<Rightarrow> WriteError (Forbidden (External err))
                     | Inr c \<Rightarrow> JSON 201 \<lparr>resp_Certificate = Some cert,
                                          resp_AddUserCertificate = Some (Some c)\<rparr>)))
       \<and> (req_AddUserPublicKey body = None \<or> crt_CertType cert = HostCert
            \<or> 2 \<le> length (crt_ValidPrincipals cert) \<or> crt_ValidPrincipals cert = []
            \<or> crt_CertType cert \<noteq> UserCert \<longrightarrow>
            SignSSH ParsePublicKey h (Inr body) =
              (JSON 201 \<lparr>resp_Certificate = Some cert, resp_AddUserCertificate = None\<rparr>,
               [CallAuthorize (req_OTT body),
                CallSignSSH publicKey (requestOptions body) signOpts]))
       \<and> ((\<forall>k. \<exists>c. SignSSHAddUser_a h k cert = Inr c) \<longrightarrow>
            ((\<exists>c. fst (SignSSH ParsePublicKey h (Inr body)) =
                   JSON 201 \<lparr>resp_Certificate = Some cert,
                             resp_AddUserCertificate = Some (Some c)\<rparr>)
             \<longleftrightarrow> req_AddUserPublicKey body \<noteq> None \<and> crt_CertType cert = UserCert
                 \<and> length (crt_ValidPrincipals cert) = 1))"
proof -
  let ?R = "SignSSH ParsePublicKey h (Inr body)"
  let ?cond = "req_AddUserPublicKey body \<noteq> None \<and> crt_CertType cert = UserCert
                \<and> length (crt_ValidPrincipals cert) = 1"
  have supplied: "(addUserPublicKey \<noteq> None) = (req_AddUserPublicKey body \<noteq> None)"
    using ak by (auto simp: parseAddUserPublicKey_def split: option.splits sum.splits)
  have neg: "SignSSH ParsePublicKey h (Inr body) =
              (JSON 201 \<lparr>resp_Certificate = Some cert, resp_AddUserCertificate = None\<rparr>,
               [CallAuthorize (req_OTT body),
                CallSignSSH publicKey (requestOptions body) signOpts])" if "\<not> ?cond"
    using that supplied by (auto simp: SignSSH_def v pk ak au sg Let_def)
  have pos: "\<exists>b k p. req_AddUserPublicKey body = Some b \<and> ParsePublicKey b = Inr k
               \<and> crt_ValidPrincipals cert = [p]
               \<and> snd ?R =
                    [CallAuthorize (req_OTT body),
                     CallSignSSH publicKey (requestOptions body) signOpts,
                     CallSignSSHAddUser k cert]
               \<and> fst ?R =
                    (case SignSSHAddUser_a h k cert of
                       Inl err \<Rightarrow> WriteError (Forbidden (External err))
                     | Inr c \<Rightarrow> JSON 201 \<lparr>resp_Certificate = Some cert,
                                          resp_AddUserCertificate = Some (Some c)\<rparr>)" if c: "?cond"
  proof -
    from c obtain b where b: "req_AddUserPublicKey body = Some b" by auto
    with ak obtain k where k: "ParsePublicKey b = Inr k" "addUserPublicKey = Some k"
      by (auto simp: parseAddUserPublicKey_def split: sum.splits)
    from c obtain p where p: "crt_ValidPrincipals cert = [p]"
      by (cases "crt_ValidPrincipals cert") auto
    have "snd ?R = [CallAuthorize (req_OTT body),
                     CallSignSSH publicKey (requestOptions body) signOpts,
                     CallSignSSHAddUser k cert]"
      using c k p by (simp add: SignSSH_def v pk ak au sg Let_def split: sum.splits)
    moreover have "fst ?R = (case SignSSHAddUser_a h k cert of
                       Inl err \<Rightarrow> WriteError (Forbidden (External err))
                     | Inr c \<Rightarrow> JSON 201 \<lparr>resp_Certificate = Some cert,
                                          resp_AddUserCertificate = Some (Some c)\<rparr>)"
      using c k p by (simp add: SignSSH_def v pk ak au sg Let_def split: sum.splits)
    ultimately show ?thesis using b k p by blast
  qed
  have iff: "(\<exists>k c. CallSignSSHAddUser k c \<in> set (snd ?R)) \<longleftrightarrow> ?cond"
  proof (cases ?cond)
    case True
    with pos show ?thesis by fastforce
  next
    case False
    with neg show ?thesis by simp
  qed
  have host: "HostCert \<noteq> UserCert" by (simp add: HostCert_def UserCert_def)
  have issued: "(\<exists>c. fst ?R = JSON 201 \<lparr>resp_Certificate = Some cert,
                                         resp_AddUserCertificate = Some (Some c)\<rparr>)
                \<longleftrightarrow> ?cond"
    if ok: "\<forall>k. \<exists>c. SignSSHAddUser_a h k cert = Inr c"
  proof (cases ?cond)
    case True
    from pos [OF True] obtain k where
      f: "fst ?R = (case SignSSHAddUser_a h k cert of
                      Inl err \<Rightarrow> WriteError (Forbidden (External err))
                    | Inr c \<Rightarrow> JSON 201 \<lparr>resp_Certificate = Some cert,
                                         resp_AddUserCertificate = Some (Some c)\<rparr>)"
      by blast
    from ok obtain c where "SignSSHAddUser_a h k cert = Inr c" by blast
    with f True show ?thesis by auto
  next
    case False
    with neg show ?thesis by simp
  qed
  have first: "((\<exists>k c. CallSignSSHAddUser k c \<in> set (snd ?R)) \<longleftrightarrow> ?cond)
       \<and> (?cond \<longrightarrow>
            (\<exists>b k p. req_AddUserPublicKey body = Some b \<and> ParsePublicKey b = Inr k
               \<and> crt_ValidPrincipals cert = [p]
               \<and> snd ?R =
                    [CallAuthorize (req_OTT body),
                     CallSignSSH publicKey (requestOptions body) signOpts,
                     CallSignSSHAddUser k cert]
               \<and> fst ?R =
                    (case SignSSHAddUser_a h k cert of
                       Inl err \<Rightarrow> WriteError (Forbidden (External err))
                     | Inr c \<Rightarrow> JSON 201 \<lparr>resp_Certificate = Some cert,
                                          resp_AddUserCertificate = Some (Some c)\<rparr>)))
       \<and> (req_AddUserPublicKey body = None \<or> crt_CertType cert = HostCert
            \<or> 2 \<le> length (crt_ValidPrincipals cert) \<or> crt_ValidPrincipals cert = []
            \<or> crt_CertType cert \<noteq> UserCert \<longrightarrow>
            ?R =
              (JSON 201 \<lparr>resp_Certificate = Some cert, resp_AddUserCertificate = None\<rparr>,
               [CallAuthorize (req_OTT body),
                CallSignSSH publicKey (requestOptions body) signOpts]))"
    using iff pos neg host by (intro conjI impI) (auto simp del: One_nat_def)
  from first issued show ?thesis by blast
qed


text \<open>
  The rule of claim C2 on a request with a secondary key whose primary certificate is a
  user certificate for the single principal alice.
\<close>

theorem SignSSH_addUser_rule_witness:
  "SignSSHRequest_Validate example_request = (None :: string error option)
   \<and> example_ParsePublicKey (req_PublicKey example_request) = Inr (BareKey ''K'')
   \<and> parseAddUserPublicKey example_ParsePublicKey example_request = Inr (Some (BareKey ''A''))
   \<and> Authorize_a example_authority (req_OTT example_request) = Inr [''opt'']
   \<and> SignSSH_a example_authority (BareKey ''K'') (requestOptions example_request) [''opt'']
        = Inr (example_Certificate ''K'' UserCert [''alice''])
   \<and> (\<exists>k c. CallSignSSHAddUser k c
          \<in> set (snd (SignSSH example_ParsePublicKey example_authority (Inr example_request))))"
proof -
  have h1: "SignSSHRequest_Validate example_request = (None :: string error option)"
    by (simp add: SignSSHRequest_Validate_def example_request_def SSHUserCert_def)
  have h2: "example_ParsePublicKey (req_PublicKey example_request) = Inr (BareKey ''K'')"
    by (simp add: example_ParsePublicKey_def example_request_def)
  have h3: "parseAddUserPublicKey example_ParsePublicKey example_request
              = Inr (Some (BareKey ''A''))"
    by (simp add: parseAddUserPublicKey_def example_ParsePublicKey_def example_request_def)
  have h4: "Authorize_a example_authority (req_OTT example_request) = Inr [''opt'']"
    by (simp add: example_authority_def example_request_def)
  have h5: "SignSSH_a example_authority (BareKey ''K'') (requestOptions example_request)
              [''opt''] = Inr (example_Certificate ''K'' UserCert [''alice''])"
    by (simp add: example_authority_def example_request_def requestOptions_def keyBytes_def
        SSHHostCert_def)
  have c: "req_AddUserPublicKey example_request \<noteq> None
           \<and> crt_CertType (example_Certificate ''K'' UserCert [''alice'']) = UserCert
           \<and> length (crt_ValidPrincipals (example_Certificate ''K'' UserCert [''alice''])) = 1"
    by (simp add: example_request_def example_Certificate_def)
  from SignSSH_addUser_rule [OF h1 h2 h3 h4 h5] c
  have "\<exists>k c. CallSignSSHAddUser k c
          \<in> set (snd (SignSSH example_ParsePublicKey example_authority (Inr example_request)))"
    by blast
  with h1 h2 h3 h4 h5 show ?thesis by blast
qed

text \<open>
  Claim C1. For a config request of type "host" whose templates render, the handler
  answers 200, but the rendered outputs are placed in \<open>UserTemplates\<close> and
  \<open>HostTemplates\<close> stays empty: line 287 assigns the same field as line 285.
\<close>

theorem SSHConfig_host_in_UserTemplates:
  "GetSSHConfig_a h SSHHostCert d = Inr ts \<Longrightarrow>
   SSHConfig h (Inr \<lparr>cfg_Type = SSHHostCert, cfg_Data = d\<rparr>)
     = JSON 200 \<lparr>UserTemplates = ts, HostTemplates = []\<rparr>"
  by (simp add: SSHConfig_def SSHConfigRequest_Validate_def SSHHostCert_def SSHUserCert_def)

text \<open>
  The request \<open>{type: "host", data: {"Name": "x"}}\<close> of claim C1 on the example authority.
\<close>

theorem SSHConfig_host_in_UserTemplates_witness:
  "GetSSHConfig_a example_authority SSHHostCert [''Name'' \<mapsto> ''x''] = Inr [''host config for x'']
   \<and> SSHConfig example_authority (Inr \<lparr>cfg_Type = ''host'', cfg_Data = [''Name'' \<mapsto> ''x'']\<rparr>)
       = JSON 200 \<lparr>UserTemplates = [''host config for x''], HostTemplates = []\<rparr>"
proof -
  have h: "GetSSHConfig_a example_authority SSHHostCert [''Name'' \<mapsto> ''x'']
             = Inr [''host config for x'']"
    by (simp add: example_authority_def SSHHostCert_def)
  from SSHConfig_host_in_UserTemplates [OF h] h show ?thesis
    by (simp add: SSHHostCert_def)
qed

text \<open>
  Claim C10. Whenever \<open>Validate\<close> returns nil, the request type it leaves is "user" or
  "host", an empty type having been rewritten to "user"; hence the handler never writes
  the internal error of its default branch, whatever the request and the authority.
\<close>

theorem SSHConfig_default_unreachable:
  "(\<forall>r r'. SSHConfigRequest_Validate r = (None :: 'x error option, r') \<longrightarrow>
       (cfg_Type r' = SSHUserCert \<or> cfg_Type r' = SSHHostCert)
       \<and> (cfg_Type r = '''' \<longrightarrow> cfg_Type r' = SSHUserCert))
   \<and> SSHConfig (h :: ('x, 'k, 'td, 'o, 't) SSHAuthority) rd
        \<noteq> WriteError (InternalServerError (New ''it should hot get here''))"
  by (auto simp: SSHConfig_def SSHConfigRequest_Validate_def InternalServerError_def
      BadRequest_def split: sum.splits if_splits option.splits prod.splits)

text \<open>
  Claim C10 on a request with an empty type.
\<close>

theorem SSHConfig_default_unreachable_witness:
  "SSHConfigRequest_Validate \<lparr>cfg_Type = '''', cfg_Data = Map.empty\<rparr>
     = (None :: string error option, \<lparr>cfg_Type = ''user'', cfg_Data = Map.empty\<rparr>)
   \<and> cfg_Type \<lparr>cfg_Type = ''user'', cfg_Data = Map.empty\<rparr> = SSHUserCert
   \<and> SSHConfig example_authority (Inr \<lparr>cfg_Type = '''', cfg_Data = Map.empty\<rparr>)
        \<noteq> WriteError (InternalServerError (New ''it should hot get here''))"
proof -
  have v: "SSHConfigRequest_Validate \<lparr>cfg_Type = '''', cfg_Data = Map.empty\<rparr>
     = (None :: string error option, \<lparr>cfg_Type = ''user'', cfg_Data = Map.empty\<rparr>)"
    by (simp add: SSHConfigRequest_Validate_def SSHUserCert_def)
  note T = SSHConfig_default_unreachable
         [where 'x = string and h = example_authority
            and rd = "Inr \<lparr>cfg_Type = '''', cfg_Data = Map.empty\<rparr>"]
  from T have a: "\<forall>r r'. SSHConfigRequest_Validate r = (None :: string error option, r') \<longrightarrow>
       (cfg_Type r' = SSHUserCert \<or> cfg_Type r' = SSHHostCert)
       \<and> (cfg_Type r = '''' \<longrightarrow> cfg_Type r' = SSHUserCert)"
    by (rule conjunct1)
  from T have b: "SSHConfig example_authority (Inr \<lparr>cfg_Type = '''', cfg_Data = Map.empty\<rparr>)
        \<noteq> WriteError (InternalServerError (New ''it should hot get here''))"
    by (rule conjunct2)
  from a [rule_format, OF v] have c: "cfg_Type \<lparr>cfg_Type = ''user'', cfg_Data = Map.empty\<rparr> = SSHUserCert"
    by simp
  from v c b show ?thesis by (intro conjI)
qed


section \<open>Properties of the certificate codec\<close>

lemma index_of_nth:
  "distinct xs \<Longrightarrow> n < length xs \<Longrightarrow> index_of xs (xs ! n) = Some n"
proof (induction xs arbitrary: n)
  case Nil
  then show ?case by simp
next
  case (Cons x xs)
  show ?case
  proof (cases n)
    case 0
    then show ?thesis by simp
  next
    case (Suc m)
    with Cons.prems have "xs ! m \<in> set xs" "x \<notin> set xs" by simp_all
    then have "x \<noteq> xs ! m" by auto
    with Cons Suc show ?thesis by simp
  qed
qed

lemma length_encodeStd: "length encodeStd = 64"
  by (simp add: encodeStd_def)

lemma distinct_encodeStd: "distinct encodeStd"
  by (simp add: encodeStd_def)

lemma decodeMap_encodeStd: "n < 64 \<Longrightarrow> decodeMap (encodeStd ! n) = Some n"
  unfolding decodeMap_def
  by (rule index_of_nth [OF distinct_encodeStd]) (simp add: length_encodeStd)

lemma encodeStd_mem: "n < 64 \<Longrightarrow> encodeStd ! n \<in> set encodeStd"
  by (simp add: length_encodeStd)

lemma base64Char_props:
  assumes "base64Char c"
  shows "c \<noteq> CHR 0x0A" "c \<noteq> CHR 0x0D" "c \<noteq> CHR 0x5C" "c \<noteq> CHR 0x22" "byte c < 128"
    "32 \<le> byte c"
  using assms by (auto simp: base64Char_def encodeStd_def byte_def)

lemma encodeStd_not_pad: "n < 64 \<Longrightarrow> encodeStd ! n \<noteq> CHR ''=''"
proof
  assume "n < 64" "encodeStd ! n = CHR ''=''"
  with encodeStd_mem [of n] have "CHR ''='' \<in> set encodeStd" by simp
  then show False by (simp add: encodeStd_def)
qed

lemma base64Char_EncodeToString: "list_all base64Char (EncodeToString src)"
proof (induction src rule: EncodeToString.induct)
  case 1
  then show ?case by simp
next
  case (2 a)
  have "byte a < 256" by (simp add: byte_def)
  then have "byte a div 4 < 64" "(byte a mod 4) * 16 < 64" by simp_all
  then show ?case by (simp add: base64Char_def encodeStd_mem)
next
  case (3 a b)
  have "byte a < 256" "byte b < 256" by (simp_all add: byte_def)
  then have "byte a div 4 < 64" "(byte a mod 4) * 16 + byte b div 16 < 64"
    "(byte b mod 16) * 4 < 64" by simp_all
  then show ?case by (simp add: base64Char_def encodeStd_mem)
next
  case (4 a b c src)
  have "byte a < 256" "byte b < 256" "byte c < 256" by (simp_all add: byte_def)
  then have "byte a div 4 < 64" "(byte a mod 4) * 16 + byte b div 16 < 64"
    "(byte b mod 16) * 4 + byte c div 64 < 64" "byte c mod 64 < 64" by simp_all
  with 4 show ?case by (simp add: base64Char_def encodeStd_mem)
qed

lemma char_of_byte: "char_of (byte c) = c"
  by (simp add: byte_def)

lemma decodeQuanta_quantum:
  assumes "d0 < 64" "d1 < 64" "d2 < 64" "d3 < 64"
  shows "decodeQuanta (encodeStd ! d0 # encodeStd ! d1 # encodeStd ! d2 # encodeStd ! d3 # src)
           = map_option
               (\<lambda>dst. char_of (d0 * 4 + d1 div 16) # char_of ((d1 mod 16) * 16 + d2 div 4)
                      # char_of ((d2 mod 4) * 64 + d3) # dst)
               (decodeQuanta src)"
  using assms by (simp add: decodeMap_encodeStd encodeStd_not_pad)

lemma decodeQuanta_pad1:
  assumes "d0 < 64" "d1 < 64" "d2 < 64"
  shows "decodeQuanta [encodeStd ! d0, encodeStd ! d1, encodeStd ! d2, CHR ''='']
           = Some [char_of (d0 * 4 + d1 div 16), char_of ((d1 mod 16) * 16 + d2 div 4)]"
  using assms by (simp add: decodeMap_encodeStd encodeStd_not_pad)

lemma decodeQuanta_pad2:
  assumes "d0 < 64" "d1 < 64"
  shows "decodeQuanta [encodeStd ! d0, encodeStd ! d1, CHR ''='', CHR ''='']
           = Some [char_of (d0 * 4 + d1 div 16)]"
  using assms by (simp add: decodeMap_encodeStd)

lemma sextets:
  fixes a b c :: nat
  assumes "a < 256" "b < 256" "c < 256"
  shows "a div 4 < 64" "(a mod 4) * 16 + b div 16 < 64" "(b mod 16) * 4 + c div 64 < 64"
    "c mod 64 < 64"
    "a div 4 * 4 + ((a mod 4) * 16 + b div 16) div 16 = a"
    "(((a mod 4) * 16 + b div 16) mod 16) * 16 + ((b mod 16) * 4 + c div 64) div 4 = b"
    "(((b mod 16) * 4 + c div 64) mod 4) * 64 + c mod 64 = c"
  using assms by simp_all

lemma decodeQuanta_EncodeToString: "decodeQuanta (EncodeToString src) = Some src"
proof (induction src rule: EncodeToString.induct)
  case 1
  then show ?case by simp
next
  case (2 a)
  have a: "byte a < 256" by (simp add: byte_def)
  define d0 where "d0 = byte a div 4"
  define d1 where "d1 = (byte a mod 4) * 16"
  have r: "d0 < 64" "d1 < 64" and e: "d0 * 4 + d1 div 16 = byte a"
    using sextets [OF a, of 0 0] by (simp_all add: d0_def d1_def)
  have "EncodeToString [a] = [encodeStd ! d0, encodeStd ! d1, CHR ''='', CHR ''='']"
    by (simp add: d0_def d1_def)
  then show ?case
    by (simp only: decodeQuanta_pad2 [OF r] e char_of_byte)
next
  case (3 a b)
  have a: "byte a < 256" "byte b < 256" by (simp_all add: byte_def)
  define d0 where "d0 = byte a div 4"
  define d1 where "d1 = (byte a mod 4) * 16 + byte b div 16"
  define d2 where "d2 = (byte b mod 16) * 4"
  have r: "d0 < 64" "d1 < 64" "d2 < 64"
    and e: "d0 * 4 + d1 div 16 = byte a" "(d1 mod 16) * 16 + d2 div 4 = byte b"
    using sextets [OF a, of 0] by (simp_all add: d0_def d1_def d2_def)
  have "EncodeToString [a, b] = [encodeStd ! d0, encodeStd ! d1, encodeStd ! d2, CHR ''='']"
    by (simp add: d0_def d1_def d2_def)
  then show ?case
    by (simp only: decodeQuanta_pad1 [OF r] e char_of_byte)
next
  case (4 a b c src)
  have a: "byte a < 256" "byte b < 256" "byte c < 256" by (simp_all add: byte_def)
  define d0 where "d0 = byte a div 4"
  define d1 where "d1 = (byte a mod 4) * 16 + byte b div 16"
  define d2 where "d2 = (byte b mod 16) * 4 + byte c div 64"
  define d3 where "d3 = byte c mod 64"
  have r: "d0 < 64" "d1 < 64" "d2 < 64" "d3 < 64"
    and e: "d0 * 4 + d1 div 16 = byte a" "(d1 mod 16) * 16 + d2 div 4 = byte b"
      "(d2 mod 4) * 64 + d3 = byte c"
    using sextets [OF a] by (simp_all add: d0_def d1_def d2_def d3_def)
  have "EncodeToString (a # b # c # src)
          = encodeStd ! d0 # encodeStd ! d1 # encodeStd ! d2 # encodeStd ! d3
            # EncodeToString src"
    by (simp add: d0_def d1_def d2_def d3_def)
  then show ?case
    by (simp only: decodeQuanta_quantum [OF r] "4.IH" e char_of_byte option.map)
qed

lemma filter_base64: "list_all base64Char s \<Longrightarrow> filter (\<lambda>c. c \<noteq> CHR 0x0A \<and> c \<noteq> CHR 0x0D) s = s"
  by (induction s) (auto dest: base64Char_props(1,2))

lemma DecodeString_EncodeToString: "DecodeString (EncodeToString src) = Some src"
  by (simp add: DecodeString_def filter_base64 [OF base64Char_EncodeToString]
      decodeQuanta_EncodeToString)

lemma EncodeToString_empty: "EncodeToString src = [] \<longleftrightarrow> src = []"
  by (induction src rule: EncodeToString.induct) simp_all

lemma trimSpace_quoted:
  "trimSpace (CHR 0x22 # s @ [CHR 0x22]) = CHR 0x22 # s @ [CHR 0x22]"
  by (simp add: trimSpace_def isSpace_def)

lemma json_Unmarshal_string_base64:
  assumes "list_all base64Char s"
  shows "json_Unmarshal_string unquote (CHR 0x22 # s @ [CHR 0x22]) = Some s"
proof -
  have 1: "list_all (\<lambda>c. c \<noteq> CHR 0x5C \<and> byte c < 128) s"
    using assms by (auto simp: list_all_iff dest: base64Char_props(3,5))
  have 2: "list_all (\<lambda>c. c \<noteq> CHR 0x22 \<and> 32 \<le> byte c) s"
    using assms by (auto simp: list_all_iff dest: base64Char_props(4,6))
  show ?thesis
    unfolding json_Unmarshal_string_def trimSpace_quoted
    using 1 2 by (simp add: butlast_append)
qed


lemma UnmarshalJSON_quoted:
  assumes "src \<noteq> []"
  shows "SSHCertificate_UnmarshalJSON unquote ssh (CHR 0x22 # EncodeToString src @ [CHR 0x22])
           = (case ssh_ParsePublicKey ssh src of
                Inl err \<Rightarrow> Inl (Wrap (External (SSHError err)) ''error parsing ssh certificate'')
              | Inr (CertKey cert) \<Rightarrow> Inr (Some cert)
              | Inr (BareKey k) \<Rightarrow>
                  Inl (New (''error decoding ssh certificate: '' @ typeName ssh k
                            @ '' is not an *ssh.Certificate'')))"
  using assms
  by (simp add: SSHCertificate_UnmarshalJSON_def
      json_Unmarshal_string_base64 [OF base64Char_EncodeToString]
      EncodeToString_empty DecodeString_EncodeToString)

text \<open>
  Claim C7. Decoding the encoding of a certificate \<open>c\<close> yields \<open>c\<close>, provided the wire
  format of the ssh package round-trips on \<open>c\<close> (\<open>ParsePublicKey\<close> of \<open>c.Marshal()\<close> is
  \<open>c\<close>, and \<open>c.Marshal()\<close> is not empty). An absent certificate encodes as \<open>null\<close>, and
  both \<open>null\<close> and the empty JSON string decode to absent without error. A string whose
  base64 content parses as a bare public key fails with the type-mismatch error, whether
  it is given as any JSON document that decodes to such a string or as the quoted
  encoding of the key's bytes.
\<close>

theorem SSHCertificate_codec_roundtrip:
  "(cert_Marshal ssh c \<noteq> [] \<and> ssh_ParsePublicKey ssh (cert_Marshal ssh c) = Inr (CertKey c)
      \<longrightarrow> SSHCertificate_UnmarshalJSON unquote ssh (SSHCertificate_MarshalJSON ssh (Some c))
            = Inr (Some c))
   \<and> SSHCertificate_MarshalJSON ssh None = ''null''
   \<and> SSHCertificate_UnmarshalJSON unquote ssh (SSHCertificate_MarshalJSON ssh None) = Inr None
   \<and> SSHCertificate_UnmarshalJSON unquote ssh [CHR 0x22, CHR 0x22] = Inr None
   \<and> (json_Unmarshal_string unquote data = Some s \<and> s \<noteq> [] \<and> DecodeString s = Some certData
        \<and> ssh_ParsePublicKey ssh certData = Inr (BareKey k)
      \<longrightarrow> SSHCertificate_UnmarshalJSON unquote ssh data
            = Inl (New (''error decoding ssh certificate: '' @ typeName ssh k
                        @ '' is not an *ssh.Certificate'')))
   \<and> (keyData \<noteq> [] \<and> ssh_ParsePublicKey ssh keyData = Inr (BareKey k)
      \<longrightarrow> SSHCertificate_UnmarshalJSON unquote ssh
              (CHR 0x22 # EncodeToString keyData @ [CHR 0x22])
            = Inl (New (''error decoding ssh certificate: '' @ typeName ssh k
                        @ '' is not an *ssh.Certificate'')))"
proof (intro conjI impI)
  assume "cert_Marshal ssh c \<noteq> [] \<and> ssh_ParsePublicKey ssh (cert_Marshal ssh c) = Inr (CertKey c)"
  then show "SSHCertificate_UnmarshalJSON unquote ssh (SSHCertificate_MarshalJSON ssh (Some c))
               = Inr (Some c)"
    using UnmarshalJSON_quoted [of "cert_Marshal ssh c" unquote ssh]
    by (simp add: SSHCertificate_MarshalJSON_def)
next
  show "SSHCertificate_MarshalJSON ssh None = ''null''"
    by (simp add: SSHCertificate_MarshalJSON_def)
  show "SSHCertificate_UnmarshalJSON unquote ssh (SSHCertificate_MarshalJSON ssh None) = Inr None"
    by (simp add: SSHCertificate_MarshalJSON_def SSHCertificate_UnmarshalJSON_def
        json_Unmarshal_string_def trimSpace_def isSpace_def)
  show "SSHCertificate_UnmarshalJSON unquote ssh [CHR 0x22, CHR 0x22] = Inr None"
    by (simp add: SSHCertificate_UnmarshalJSON_def json_Unmarshal_string_def trimSpace_def
        isSpace_def)
next
  assume "json_Unmarshal_string unquote data = Some s \<and> s \<noteq> [] \<and> DecodeString s = Some certData
        \<and> ssh_ParsePublicKey ssh certData = Inr (BareKey k)"
  then show "SSHCertificate_UnmarshalJSON unquote ssh data
            = Inl (New (''error decoding ssh certificate: '' @ typeName ssh k
                        @ '' is not an *ssh.Certificate''))"
    by (simp add: SSHCertificate_UnmarshalJSON_def)
next
  assume "keyData \<noteq> [] \<and> ssh_ParsePublicKey ssh keyData = Inr (BareKey k)"
  then show "SSHCertificate_UnmarshalJSON unquote ssh
              (CHR 0x22 # EncodeToString keyData @ [CHR 0x22])
            = Inl (New (''error decoding ssh certificate: '' @ typeName ssh k
                        @ '' is not an *ssh.Certificate''))"
    using UnmarshalJSON_quoted [of keyData unquote ssh] by simp
qed

text \<open>
  Claim C7 on the example package: the example certificate round-trips through the text
  \<open>"Y2VydDpL"\<close>, and the bare key \<open>key:A\<close>, sent as \<open>"a2V5OkE="\<close>, is refused.
\<close>

theorem SSHCertificate_codec_roundtrip_witness:
  "cert_Marshal example_ssh (example_Certificate ''K'' UserCert [''alice'']) \<noteq> []
   \<and> ssh_ParsePublicKey example_ssh
        (cert_Marshal example_ssh (example_Certificate ''K'' UserCert [''alice'']))
      = Inr (CertKey (example_Certificate ''K'' UserCert [''alice'']))
   \<and> SSHCertificate_MarshalJSON example_ssh
        (Some (example_Certificate ''K'' UserCert [''alice''])) = [CHR 0x22] @ ''Y2VydDpL'' @ [CHR 0x22]
   \<and> SSHCertificate_UnmarshalJSON example_unquote example_ssh
        (SSHCertificate_MarshalJSON example_ssh
           (Some (example_Certificate ''K'' UserCert [''alice''])))
      = Inr (Some (example_Certificate ''K'' UserCert [''alice'']))
   \<and> ''key:A'' \<noteq> []
   \<and> ssh_ParsePublicKey example_ssh ''key:A'' = Inr (BareKey ''A'')
   \<and> EncodeToString ''key:A'' = ''a2V5OkE=''
   \<and> SSHCertificate_UnmarshalJSON example_unquote example_ssh
        (CHR 0x22 # EncodeToString ''key:A'' @ [CHR 0x22])
      = Inl (New ''error decoding ssh certificate: *ssh.ed25519PublicKey is not an *ssh.Certificate'')"
proof -
  let ?c = "example_Certificate ''K'' UserCert [''alice'']"
  have m: "cert_Marshal example_ssh ?c = ''cert:K''"
    by (simp add: example_ssh_def example_Certificate_def)
  have h1: "cert_Marshal example_ssh ?c \<noteq> []"
    by (simp add: m)
  have h2: "ssh_ParsePublicKey example_ssh (cert_Marshal example_ssh ?c) = Inr (CertKey ?c)"
    by (simp add: m) (simp add: example_ssh_def)
  have e: "SSHCertificate_MarshalJSON example_ssh (Some ?c) = [CHR 0x22] @ ''Y2VydDpL'' @ [CHR 0x22]"
    by (simp add: SSHCertificate_MarshalJSON_def m encodeStd_def byte_def)
  have k1: "''key:A'' \<noteq> []" by simp
  have k2: "ssh_ParsePublicKey example_ssh ''key:A'' = Inr (BareKey ''A'')"
    by (simp add: example_ssh_def)
  have k3: "EncodeToString ''key:A'' = ''a2V5OkE=''"
    by (simp add: encodeStd_def byte_def)
  note T = SSHCertificate_codec_roundtrip
             [of example_ssh ?c example_unquote _ _ _ "''A''" "''key:A''"]
  from T h1 h2
  have r1: "SSHCertificate_UnmarshalJSON example_unquote example_ssh
              (SSHCertificate_MarshalJSON example_ssh (Some ?c)) = Inr (Some ?c)"
    by blast
  from T k1 k2
  have "SSHCertificate_UnmarshalJSON example_unquote example_ssh
          (CHR 0x22 # EncodeToString ''key:A'' @ [CHR 0x22])
        = Inl (New (''error decoding ssh certificate: '' @ typeName example_ssh ''A''
                    @ '' is not an *ssh.Certificate''))"
    by blast
  then have r2: "SSHCertificate_UnmarshalJSON example_unquote example_ssh
          (CHR 0x22 # EncodeToString ''key:A'' @ [CHR 0x22])
        = Inl (New ''error decoding ssh certificate: *ssh.ed25519PublicKey is not an *ssh.Certificate'')"
    by (simp add: example_ssh_def)
  from h1 h2 e r1 k1 k2 k3 r2 show ?thesis by (intro conjI)
qed

section \<open>Properties of Authorize\<close>

text \<open>
  What \<open>Authorize\<close> does once a token has been routed to a JWK provisioner and carries an
  id: the outcome depends only on whether \<open>ottMap\<close> already holds the id.
\<close>

lemma Authorize_routed:
  assumes "ParseSigned j ott = Inr token"
    and "UnsafeClaimsWithoutVerification j token = Inr claims"
    and "\<not> issuedBeforeBootstrap a claims"
    and "LoadByToken a token claims = Some p"
    and "GetType p = TypeJWK" and "clm_ID claims \<noteq> ''''"
  shows "Authorize j now a ott =
     (case ottMap a (clm_ID claims) of
        Some u \<Rightarrow>
          (Inl (apiError (New ''token already used'') 401 [(''ott'', ott)]), a,
           [EvLoadOrStore (clm_ID claims)
              \<lparr>UsedAt = Time_Unix now, Subject = clm_Subject claims\<rparr> True])
      | None \<Rightarrow>
          (case Authorize_p p ott of Inl err \<Rightarrow> Inl (Delegated err) | Inr so \<Rightarrow> Inr so,
           a\<lparr>ottMap := (ottMap a)(clm_ID claims \<mapsto>
                \<lparr>UsedAt = Time_Unix now, Subject = clm_Subject claims\<rparr>)\<rparr>,
           [EvLoadOrStore (clm_ID claims)
              \<lparr>UsedAt = Time_Unix now, Subject = clm_Subject claims\<rparr> False,
            EvProvisionerAuthorize (GetName p) ott]))"
  using assms by (simp add: Authorize_def LoadOrStore_def Let_def split: option.splits)

text \<open>
  Claim C3. A token that parses, passes the issued-at check, is routed to a provisioner
  of type JWK and carries a non-empty id that \<open>ottMap\<close> already holds is refused with the
  401 error "token already used". The only effect is the \<open>LoadOrStore\<close> that found the
  id: the provisioner's \<open>Authorize\<close> is not called and the authority is unchanged.
\<close>

theorem Authorize_replay_rejected:
  assumes "ParseSigned j ott = Inr token"
    and "UnsafeClaimsWithoutVerification j token = Inr claims"
    and "\<not> issuedBeforeBootstrap a claims"
    and "LoadByToken a token claims = Some p"
    and "GetType p = TypeJWK" and "clm_ID claims \<noteq> ''''"
    and "ottMap a (clm_ID claims) = Some u"
  shows "Authorize j now a ott =
          (Inl (apiError (New ''token already used'') 401 [(''ott'', ott)]), a,
           [EvLoadOrStore (clm_ID claims)
              \<lparr>UsedAt = Time_Unix now, Subject = clm_Subject claims\<rparr> True])"
  using Authorize_routed [OF assms(1-6)] assms(7) by simp

text \<open>
  Claim C4. For a token routed to a JWK provisioner with a non-empty id that \<open>ottMap\<close>
  does not hold yet, \<open>Authorize\<close> first stores the id (with the current time and the
  subject) and then calls the provisioner's \<open>Authorize\<close>, whose result it returns. The id
  is in \<open>ottMap\<close> afterwards whatever the provisioner answered, also when it failed, no
  other id is touched, and submitting the same token again, at any later time, is
  refused with "token already used".
\<close>

theorem Authorize_records_before_delegating:
  assumes "ParseSigned j ott = Inr token"
    and "UnsafeClaimsWithoutVerification j token = Inr claims"
    and "\<not> issuedBeforeBootstrap a claims"
    and "LoadByToken a token claims = Some p"
    and "GetType p = TypeJWK" and "clm_ID claims \<noteq> ''''"
    and "ottMap a (clm_ID claims) = None"
    and "Authorize j now a ott = (r, a', evs)"
  shows "evs = [EvLoadOrStore (clm_ID claims)
                  \<lparr>UsedAt = Time_Unix now, Subject = clm_Subject claims\<rparr> False,
                EvProvisionerAuthorize (GetName p) ott]
       \<and> r = (case Authorize_p p ott of Inl err \<Rightarrow> Inl (Delegated err) | Inr so \<Rightarrow> Inr so)
       \<and> ottMap a' (clm_ID claims)
            = Some \<lparr>UsedAt = Time_Unix now, Subject = clm_Subject claims\<rparr>
       \<and> (\<forall>k. k \<noteq> clm_ID claims \<longrightarrow> ottMap a' k = ottMap a k)
       \<and> (\<forall>now'. Authorize j now' a' ott =
            (Inl (apiError (New ''token already used'') 401 [(''ott'', ott)]), a',
             [EvLoadOrStore (clm_ID claims)
                \<lparr>UsedAt = Time_Unix now', Subject = clm_Subject claims\<rparr> True]))"
proof -
  let ?u = "\<lparr>UsedAt = Time_Unix now, Subject = clm_Subject claims\<rparr>"
  from Authorize_routed [OF assms(1-6), of now] assms(7,8)
  have r: "r = (case Authorize_p p ott of Inl err \<Rightarrow> Inl (Delegated err) | Inr so \<Rightarrow> Inr so)"
    and a': "a' = a\<lparr>ottMap := (ottMap a)(clm_ID claims \<mapsto> ?u)\<rparr>"
    and evs: "evs = [EvLoadOrStore (clm_ID claims) ?u False,
                     EvProvisionerAuthorize (GetName p) ott]"
    by simp_all
  have g: "\<not> issuedBeforeBootstrap a' claims"
    using assms(3) by (simp add: a' issuedBeforeBootstrap_def issuedAtCheckEnabled_def)
  have l: "LoadByToken a' token claims = Some p"
    using assms(4) by (simp add: a')
  have m: "ottMap a' (clm_ID claims) = Some ?u" by (simp add: a')
  have again: "Authorize j now' a' ott =
            (Inl (apiError (New ''token already used'') 401 [(''ott'', ott)]), a',
             [EvLoadOrStore (clm_ID claims)
                \<lparr>UsedAt = Time_Unix now', Subject = clm_Subject claims\<rparr> True])" for now'
    using Authorize_routed [OF assms(1,2) g l assms(5,6), of now'] m by simp
  have other: "\<forall>k. k \<noteq> clm_ID claims \<longrightarrow> ottMap a' k = ottMap a k"
    by (simp add: a')
  from evs r m other again show ?thesis by blast
qed


lemma Authorize_guard_rejects:
  assumes "ParseSigned j ott = Inr token"
    and "UnsafeClaimsWithoutVerification j token = Inr claims"
    and "issuedBeforeBootstrap a claims"
  shows "Authorize j now a ott = (Inl (bootstrapError ott), a, [])"
  using assms by (simp add: Authorize_def Let_def bootstrapError_def)

lemma Authorize_guard_only:
  assumes "fst (Authorize j now a ott) = Inl (bootstrapError ott)"
  shows "\<exists>token claims. ParseSigned j ott = Inr token
           \<and> UnsafeClaimsWithoutVerification j token = Inr claims
           \<and> issuedBeforeBootstrap a claims"
  using assms
  by (auto simp: Authorize_def Let_def bootstrapError_def LoadOrStore_def
      split: sum.splits option.splits if_splits)

lemma Authorize_startTime_irrelevant:
  assumes "ParseSigned j ott = Inr token"
    and "UnsafeClaimsWithoutVerification j token = Inr claims"
    and "\<not> issuedBeforeBootstrap a claims"
    and "\<not> issuedBeforeBootstrap (a\<lparr>startTime := t\<rparr>) claims"
  shows "fst (Authorize j now (a\<lparr>startTime := t\<rparr>) ott) = fst (Authorize j now a ott)"
  using assms
  by (auto simp: Authorize_def Let_def LoadOrStore_def
      split: sum.splits option.splits if_splits)

text \<open>
  Claim C5, as amended. With the issued-at check enabled (an authority configuration is
  present and \<open>DisableIssuedAtCheck\<close> is false), every token whose issued-at is strictly
  positive and strictly before the start time of the authority is refused with the 401
  bootstrap error, with no effect. With the check disabled, or for a token whose
  issued-at is zero or negative, the token is never refused with that error and the
  outcome does not depend on the start time.
\<close>

theorem Authorize_bootstrap_guard:
  assumes "ParseSigned j ott = Inr token"
    and "UnsafeClaimsWithoutVerification j token = Inr claims"
  shows "(issuedAtCheckEnabled a \<and> 0 < sint (clm_IssuedAt claims)
            \<and> Before (NumericDate_Time (clm_IssuedAt claims)) (startTime a)
          \<longrightarrow> Authorize j now a ott = (Inl (bootstrapError ott), a, []))
       \<and> (\<not> issuedAtCheckEnabled a \<or> sint (clm_IssuedAt claims) \<le> 0
          \<longrightarrow> fst (Authorize j now a ott) \<noteq> Inl (bootstrapError ott)
              \<and> (\<forall>t. fst (Authorize j now (a\<lparr>startTime := t\<rparr>) ott)
                       = fst (Authorize j now a ott)))"
proof (intro conjI impI)
  assume "issuedAtCheckEnabled a \<and> 0 < sint (clm_IssuedAt claims)
            \<and> Before (NumericDate_Time (clm_IssuedAt claims)) (startTime a)"
  then have "issuedBeforeBootstrap a claims" by (simp add: issuedBeforeBootstrap_def)
  with assms show "Authorize j now a ott = (Inl (bootstrapError ott), a, [])"
    by (rule Authorize_guard_rejects)
next
  assume off: "\<not> issuedAtCheckEnabled a \<or> sint (clm_IssuedAt claims) \<le> 0"
  then have n: "\<not> issuedBeforeBootstrap (a\<lparr>startTime := t\<rparr>) claims" for t
    by (auto simp: issuedBeforeBootstrap_def issuedAtCheckEnabled_def)
  from n [of "startTime a"] have n0: "\<not> issuedBeforeBootstrap a claims" by simp
  show "fst (Authorize j now a ott) \<noteq> Inl (bootstrapError ott)"
  proof
    assume "fst (Authorize j now a ott) = Inl (bootstrapError ott)"
    from Authorize_guard_only [OF this] assms n0 show False by auto
  qed
  show "\<forall>t. fst (Authorize j now (a\<lparr>startTime := t\<rparr>) ott) = fst (Authorize j now a ott)"
    using Authorize_startTime_irrelevant [OF assms n0 n] by blast
qed

text \<open>
  Claim C5 as stated fails: with the check enabled, a token whose issued-at is -1, one
  second before the epoch and so strictly before the start time, is authorized.
\<close>

theorem Authorize_bootstrap_guard_counterexample:
  "issuedAtCheckEnabled example_ca
   \<and> ParseSigned example_jose ''negative-iat'' = Inr ''negative-iat''
   \<and> UnsafeClaimsWithoutVerification example_jose ''negative-iat''
        = Inr (example_claims ''negative-iat'')
   \<and> sint (clm_IssuedAt (example_claims ''negative-iat'')) = - 1
   \<and> Before (NumericDate_Time (clm_IssuedAt (example_claims ''negative-iat'')))
        (startTime example_ca)
   \<and> fst (Authorize example_jose example_now example_ca ''negative-iat'') = Inr [''opt'']"
  by (simp add: issuedAtCheckEnabled_def example_ca_def example_jose_def example_claims_def
      Before_def NumericDate_Time_def unixToInternal_def Authorize_def issuedBeforeBootstrap_def Let_def
      example_Provisioner_def LoadOrStore_def)

text \<open>
  \<open>time.Unix(n, 0)\<close> in Unix seconds: the date itself unless the \<open>int64\<close> sum with
  \<open>unixToInternal\<close> wraps around, and then \<open>2^64\<close> seconds earlier.
\<close>

lemma sint_unixToInternal: "sint unixToInternal = 62135596800"
  by (simp add: unixToInternal_def)

lemma NumericDate_Time_plain:
  assumes "sint n < 2 ^ 63 - 62135596800"
  shows "NumericDate_Time n = \<lparr>t_sec = sint n, t_nsec = 0\<rparr>"
proof -
  have lo: "- (2 ^ 63) \<le> sint n" using sint_ge [of n] by simp
  have "sint (n + unixToInternal) = signed_take_bit 63 (sint n + sint unixToInternal)"
    by (simp add: sint_word_ariths)
  also have "\<dots> = sint n + 62135596800"
    using assms lo by (simp add: sint_unixToInternal signed_take_bit_int_eq_self)
  finally show ?thesis by (simp add: NumericDate_Time_def sint_unixToInternal)
qed

lemma NumericDate_Time_wrapped:
  assumes "2 ^ 63 - 62135596800 \<le> sint n"
  shows "NumericDate_Time n = \<lparr>t_sec = sint n - 2 ^ 64, t_nsec = 0\<rparr>"
proof -
  define k where "k = sint n + 62135596800"
  define x where "x = k + 2 ^ 63 - 2 ^ 64"
  have hi: "sint n < 2 ^ 63" using sint_lt [of n] by simp
  have x: "0 \<le> x" "x < 2 ^ 64" using assms hi by (simp_all add: x_def k_def)
  have kx: "k + 2 ^ 63 = x + 2 ^ 64" by (simp add: x_def)
  have "(x + 2 ^ 64) mod 2 ^ 64 = x"
    using x by (simp add: mod_pos_pos_trivial)
  then have "take_bit 64 (k + 2 ^ 63) = x"
    by (simp only: kx take_bit_eq_mod)
  then have "signed_take_bit 63 k = x - 2 ^ 63"
    by (simp only: signed_take_bit_eq_take_bit_shift [of 63 k]) simp
  moreover have "sint (n + unixToInternal) = signed_take_bit 63 k"
    by (simp add: sint_word_ariths sint_unixToInternal k_def)
  ultimately have "sint (n + unixToInternal) = sint n + 62135596800 - 2 ^ 64"
    by (simp add: x_def k_def)
  then show ?thesis by (simp add: NumericDate_Time_def sint_unixToInternal)
qed

text \<open>
  Claim C9. A token whose issued-at is zero is never refused with the bootstrap error,
  whether the check is enabled or not, and its outcome does not depend on the start
  time. Only a token with a strictly positive issued-at is compared with the start
  time: for a token that parses, the bootstrap error is returned exactly when the check
  is enabled, the issued-at is strictly positive and \<open>time.Unix\<close> of the issued-at lies
  before the start time. That instant is the issued-at itself, except that for an
  issued-at of \<open>2^63 - 62135596800\<close> or more the \<open>int64\<close> seconds of \<open>time.Unix\<close> wrap
  around and the instant is \<open>2^64\<close> seconds earlier.
\<close>

theorem Authorize_no_issuedAt_passes:
  "(ParseSigned j ott = Inr token \<and> UnsafeClaimsWithoutVerification j token = Inr claims
      \<and> clm_IssuedAt claims = 0
    \<longrightarrow> fst (Authorize j now a ott) \<noteq> Inl (bootstrapError ott)
        \<and> (\<forall>t. fst (Authorize j now (a\<lparr>startTime := t\<rparr>) ott) = fst (Authorize j now a ott)))
   \<and> (fst (Authorize j now a ott) = Inl (bootstrapError ott)
    \<longrightarrow> (\<exists>token claims. ParseSigned j ott = Inr token
           \<and> UnsafeClaimsWithoutVerification j token = Inr claims
           \<and> issuedAtCheckEnabled a \<and> 0 < sint (clm_IssuedAt claims)
           \<and> Before (NumericDate_Time (clm_IssuedAt claims)) (startTime a)))
   \<and> (ParseSigned j ott = Inr token \<and> UnsafeClaimsWithoutVerification j token = Inr claims
    \<longrightarrow> (fst (Authorize j now a ott) = Inl (bootstrapError ott)
         \<longleftrightarrow> issuedAtCheckEnabled a \<and> 0 < sint (clm_IssuedAt claims)
             \<and> Before (NumericDate_Time (clm_IssuedAt claims)) (startTime a)))
   \<and> (sint n < 2 ^ 63 - 62135596800
    \<longrightarrow> (Before (NumericDate_Time n) st
         \<longleftrightarrow> sint n < t_sec st \<or> (sint n = t_sec st \<and> 0 < t_nsec st)))
   \<and> (2 ^ 63 - 62135596800 \<le> sint n
    \<longrightarrow> (Before (NumericDate_Time n) st
         \<longleftrightarrow> sint n - 2 ^ 64 < t_sec st \<or> (sint n - 2 ^ 64 = t_sec st \<and> 0 < t_nsec st)))"
proof (intro conjI impI)
  assume h: "ParseSigned j ott = Inr token \<and> UnsafeClaimsWithoutVerification j token = Inr claims
      \<and> clm_IssuedAt claims = 0"
  then have n: "\<not> issuedBeforeBootstrap (a\<lparr>startTime := t\<rparr>) claims" for t
    by (simp add: issuedBeforeBootstrap_def)
  from n [of "startTime a"] have n0: "\<not> issuedBeforeBootstrap a claims" by simp
  show "fst (Authorize j now a ott) \<noteq> Inl (bootstrapError ott)"
  proof
    assume "fst (Authorize j now a ott) = Inl (bootstrapError ott)"
    from Authorize_guard_only [OF this] h n0 show False by auto
  qed
  from h have p: "ParseSigned j ott = Inr token"
    and c: "UnsafeClaimsWithoutVerification j token = Inr claims" by simp_all
  show "\<forall>t. fst (Authorize j now (a\<lparr>startTime := t\<rparr>) ott) = fst (Authorize j now a ott)"
    using Authorize_startTime_irrelevant [OF p c n0 n] by blast
next
  assume "fst (Authorize j now a ott) = Inl (bootstrapError ott)"
  from Authorize_guard_only [OF this]
  show "\<exists>token claims. ParseSigned j ott = Inr token
           \<and> UnsafeClaimsWithoutVerification j token = Inr claims
           \<and> issuedAtCheckEnabled a \<and> 0 < sint (clm_IssuedAt claims)
           \<and> Before (NumericDate_Time (clm_IssuedAt claims)) (startTime a)"
    by (auto simp: issuedBeforeBootstrap_def)
next
  assume h: "ParseSigned j ott = Inr token \<and> UnsafeClaimsWithoutVerification j token = Inr claims"
  then have p: "ParseSigned j ott = Inr token"
    and c: "UnsafeClaimsWithoutVerification j token = Inr claims" by simp_all
  show "fst (Authorize j now a ott) = Inl (bootstrapError ott)
         \<longleftrightarrow> issuedAtCheckEnabled a \<and> 0 < sint (clm_IssuedAt claims)
             \<and> Before (NumericDate_Time (clm_IssuedAt claims)) (startTime a)"
  proof
    assume "fst (Authorize j now a ott) = Inl (bootstrapError ott)"
    from Authorize_guard_only [OF this] p c
    show "issuedAtCheckEnabled a \<and> 0 < sint (clm_IssuedAt claims)
             \<and> Before (NumericDate_Time (clm_IssuedAt claims)) (startTime a)"
      by (auto simp: issuedBeforeBootstrap_def)
  next
    assume "issuedAtCheckEnabled a \<and> 0 < sint (clm_IssuedAt claims)
             \<and> Before (NumericDate_Time (clm_IssuedAt claims)) (startTime a)"
    then have "issuedBeforeBootstrap a claims" by (simp add: issuedBeforeBootstrap_def)
    from Authorize_guard_rejects [OF p c this, of now]
    show "fst (Authorize j now a ott) = Inl (bootstrapError ott)" by simp
  qed
next
  assume "sint n < 2 ^ 63 - 62135596800"
  then show "Before (NumericDate_Time n) st
         \<longleftrightarrow> sint n < t_sec st \<or> (sint n = t_sec st \<and> 0 < t_nsec st)"
    by (simp add: NumericDate_Time_plain Before_def)
next
  assume "2 ^ 63 - 62135596800 \<le> sint n"
  then show "Before (NumericDate_Time n) st
         \<longleftrightarrow> sint n - 2 ^ 64 < t_sec st \<or> (sint n - 2 ^ 64 = t_sec st \<and> 0 < t_nsec st)"
    by (simp add: NumericDate_Time_wrapped Before_def)
qed


text \<open>
  The example token \<open>forged\<close>: it is routed to the JWK provisioner, which rejects it.
\<close>

lemma example_parse: "ParseSigned example_jose ''forged'' = Inr ''forged''"
  by (simp add: example_jose_def)

lemma example_unsafe:
  "UnsafeClaimsWithoutVerification example_jose ''forged'' = Inr (example_claims ''forged'')"
  by (simp add: example_jose_def)

lemma example_not_before_bootstrap:
  "\<not> issuedBeforeBootstrap (example_ca\<lparr>ottMap := m\<rparr>) (example_claims ''forged'')"
  by (simp add: issuedBeforeBootstrap_def example_ca_def example_claims_def Before_def
      NumericDate_Time_def unixToInternal_def)

lemma example_load:
  "LoadByToken (example_ca\<lparr>ottMap := m\<rparr>) ''forged'' (example_claims ''forged'')
     = Some example_Provisioner"
  by (simp add: example_ca_def example_claims_def)

lemma example_jwk: "GetType example_Provisioner = TypeJWK"
  by (simp add: example_Provisioner_def)

lemma example_id: "clm_ID (example_claims ''forged'') \<noteq> ''''"
  by (simp add: example_claims_def)

text \<open>
  Claim C3 on the example authority after it has seen the token \<open>forged\<close> once.
\<close>

theorem Authorize_replay_rejected_witness:
  "ParseSigned example_jose ''forged'' = Inr ''forged''
   \<and> UnsafeClaimsWithoutVerification example_jose ''forged'' = Inr (example_claims ''forged'')
   \<and> \<not> issuedBeforeBootstrap
          (example_ca\<lparr>ottMap := [''id-forged'' \<mapsto> \<lparr>UsedAt = 1600, Subject = ''alice''\<rparr>]\<rparr>)
          (example_claims ''forged'')
   \<and> LoadByToken
          (example_ca\<lparr>ottMap := [''id-forged'' \<mapsto> \<lparr>UsedAt = 1600, Subject = ''alice''\<rparr>]\<rparr>)
          ''forged'' (example_claims ''forged'') = Some example_Provisioner
   \<and> GetType example_Provisioner = TypeJWK
   \<and> clm_ID (example_claims ''forged'') \<noteq> ''''
   \<and> ottMap (example_ca\<lparr>ottMap := [''id-forged'' \<mapsto> \<lparr>UsedAt = 1600, Subject = ''alice''\<rparr>]\<rparr>)
        (clm_ID (example_claims ''forged'')) = Some \<lparr>UsedAt = 1600, Subject = ''alice''\<rparr>
   \<and> Authorize example_jose \<lparr>t_sec = 1700, t_nsec = 0\<rparr>
        (example_ca\<lparr>ottMap := [''id-forged'' \<mapsto> \<lparr>UsedAt = 1600, Subject = ''alice''\<rparr>]\<rparr>)
        ''forged''
      = (Inl (apiError (New ''token already used'') 401 [(''ott'', ''forged'')]),
         example_ca\<lparr>ottMap := [''id-forged'' \<mapsto> \<lparr>UsedAt = 1600, Subject = ''alice''\<rparr>]\<rparr>,
         [EvLoadOrStore ''id-forged'' \<lparr>UsedAt = 1700, Subject = ''alice''\<rparr> True])"
proof -
  let ?a = "example_ca\<lparr>ottMap := [''id-forged'' \<mapsto> \<lparr>UsedAt = 1600, Subject = ''alice''\<rparr>]\<rparr>"
  have m: "ottMap ?a (clm_ID (example_claims ''forged''))
             = Some \<lparr>UsedAt = 1600, Subject = ''alice''\<rparr>"
    by (simp add: example_claims_def)
  from Authorize_replay_rejected
         [OF example_parse example_unsafe example_not_before_bootstrap example_load
             example_jwk example_id m, of "\<lparr>t_sec = 1700, t_nsec = 0\<rparr>"]
  have "Authorize example_jose \<lparr>t_sec = 1700, t_nsec = 0\<rparr> ?a ''forged''
      = (Inl (apiError (New ''token already used'') 401 [(''ott'', ''forged'')]), ?a,
         [EvLoadOrStore ''id-forged'' \<lparr>UsedAt = 1700, Subject = ''alice''\<rparr> True])"
    by (simp add: example_claims_def Time_Unix_def)
  with example_parse example_unsafe example_not_before_bootstrap example_load example_jwk
    example_id m
  show ?thesis by (intro conjI)
qed

text \<open>
  Claim C4 on the example authority: the provisioner rejects the token \<open>forged\<close>, its id
  is recorded all the same, and the second submission is a replay.
\<close>

theorem Authorize_records_before_delegating_witness:
  "ParseSigned example_jose ''forged'' = Inr ''forged''
   \<and> UnsafeClaimsWithoutVerification example_jose ''forged'' = Inr (example_claims ''forged'')
   \<and> \<not> issuedBeforeBootstrap example_ca (example_claims ''forged'')
   \<and> LoadByToken example_ca ''forged'' (example_claims ''forged'') = Some example_Provisioner
   \<and> GetType example_Provisioner = TypeJWK
   \<and> clm_ID (example_claims ''forged'') \<noteq> ''''
   \<and> ottMap example_ca (clm_ID (example_claims ''forged'')) = None
   \<and> Authorize example_jose example_now example_ca ''forged''
      = (Inl (Delegated ''invalid signature''),
         example_ca\<lparr>ottMap := [''id-forged'' \<mapsto> \<lparr>UsedAt = 1600, Subject = ''alice''\<rparr>]\<rparr>,
         [EvLoadOrStore ''id-forged'' \<lparr>UsedAt = 1600, Subject = ''alice''\<rparr> False,
          EvProvisionerAuthorize ''jwk'' ''forged''])
   \<and> Authorize example_jose \<lparr>t_sec = 1700, t_nsec = 0\<rparr>
        (example_ca\<lparr>ottMap := [''id-forged'' \<mapsto> \<lparr>UsedAt = 1600, Subject = ''alice''\<rparr>]\<rparr>)
        ''forged''
      = (Inl (apiError (New ''token already used'') 401 [(''ott'', ''forged'')]),
         example_ca\<lparr>ottMap := [''id-forged'' \<mapsto> \<lparr>UsedAt = 1600, Subject = ''alice''\<rparr>]\<rparr>,
         [EvLoadOrStore ''id-forged'' \<lparr>UsedAt = 1700, Subject = ''alice''\<rparr> True])"
proof -
  let ?a = "example_ca\<lparr>ottMap := [''id-forged'' \<mapsto> \<lparr>UsedAt = 1600, Subject = ''alice''\<rparr>]\<rparr>"
  have g: "\<not> issuedBeforeBootstrap example_ca (example_claims ''forged'')"
    using example_not_before_bootstrap [of "ottMap example_ca"] by simp
  have l: "LoadByToken example_ca ''forged'' (example_claims ''forged'')
             = Some example_Provisioner"
    using example_load [of "ottMap example_ca"] by simp
  have m: "ottMap example_ca (clm_ID (example_claims ''forged'')) = None"
    by (simp add: example_ca_def)
  have r: "Authorize example_jose example_now example_ca ''forged''
      = (Inl (Delegated ''invalid signature''), ?a,
         [EvLoadOrStore ''id-forged'' \<lparr>UsedAt = 1600, Subject = ''alice''\<rparr> False,
          EvProvisionerAuthorize ''jwk'' ''forged''])"
    using Authorize_routed [OF example_parse example_unsafe g l example_jwk example_id,
        of example_now] m
    by (simp add: example_claims_def example_now_def Time_Unix_def example_Provisioner_def
        example_ca_def)
  from Authorize_records_before_delegating
         [OF example_parse example_unsafe g l example_jwk example_id m r]
  have "Authorize example_jose \<lparr>t_sec = 1700, t_nsec = 0\<rparr> ?a ''forged''
      = (Inl (apiError (New ''token already used'') 401 [(''ott'', ''forged'')]), ?a,
         [EvLoadOrStore ''id-forged'' \<lparr>UsedAt = 1700, Subject = ''alice''\<rparr> True])"
    by (simp add: example_claims_def Time_Unix_def)
  with example_parse example_unsafe g l example_jwk example_id m r
  show ?thesis by (intro conjI)
qed

text \<open>
  The amended claim C5 on a token issued at 50 with an authority started at 1000.
\<close>

theorem Authorize_bootstrap_guard_witness:
  "ParseSigned example_jose ''stale'' = Inr ''stale''
   \<and> UnsafeClaimsWithoutVerification example_jose ''stale'' = Inr (example_claims ''stale'')
   \<and> issuedAtCheckEnabled example_ca
   \<and> 0 < sint (clm_IssuedAt (example_claims ''stale''))
   \<and> Before (NumericDate_Time (clm_IssuedAt (example_claims ''stale''))) (startTime example_ca)
   \<and> Authorize example_jose example_now example_ca ''stale''
        = (Inl (bootstrapError ''stale''), example_ca, [])
   \<and> \<not> issuedAtCheckEnabled
          (example_ca\<lparr>config := \<lparr>AuthorityConfig = Some \<lparr>DisableIssuedAtCheck = True\<rparr>\<rparr>\<rparr>)
   \<and> fst (Authorize example_jose example_now
            (example_ca\<lparr>config := \<lparr>AuthorityConfig = Some \<lparr>DisableIssuedAtCheck = True\<rparr>\<rparr>\<rparr>)
            ''stale'') \<noteq> Inl (bootstrapError ''stale'')"
proof -
  let ?off = "example_ca\<lparr>config := \<lparr>AuthorityConfig = Some \<lparr>DisableIssuedAtCheck = True\<rparr>\<rparr>\<rparr>"
  have p: "ParseSigned example_jose ''stale'' = Inr ''stale''"
    by (simp add: example_jose_def)
  have c: "UnsafeClaimsWithoutVerification example_jose ''stale''
             = Inr (example_claims ''stale'')"
    by (simp add: example_jose_def)
  have e: "issuedAtCheckEnabled example_ca"
    by (simp add: issuedAtCheckEnabled_def example_ca_def)
  have i: "0 < sint (clm_IssuedAt (example_claims ''stale''))"
    by (simp add: example_claims_def)
  have b: "Before (NumericDate_Time (clm_IssuedAt (example_claims ''stale'')))
             (startTime example_ca)"
    by (simp add: example_claims_def Before_def NumericDate_Time_def unixToInternal_def example_ca_def)
  have d: "\<not> issuedAtCheckEnabled ?off"
    by (simp add: issuedAtCheckEnabled_def)
  from Authorize_bootstrap_guard [OF p c, of example_ca example_now] e i b
  have r1: "Authorize example_jose example_now example_ca ''stale''
        = (Inl (bootstrapError ''stale''), example_ca, [])"
    by blast
  from Authorize_bootstrap_guard [OF p c, of ?off example_now] d
  have r2: "fst (Authorize example_jose example_now ?off ''stale'')
              \<noteq> Inl (bootstrapError ''stale'')"
    by blast
  from p c e i b r1 d r2 show ?thesis by (intro conjI)
qed

text \<open>
  Claim C9 on the example authority, with the check enabled: a token without issued-at
  is authorized, and a token issued at \<open>2^63 - 1024\<close>, whose \<open>time.Unix\<close> instant wraps
  around to before the start time, is refused with the bootstrap error.
\<close>

theorem Authorize_no_issuedAt_passes_witness:
  "ParseSigned example_jose ''no-iat'' = Inr ''no-iat''
   \<and> UnsafeClaimsWithoutVerification example_jose ''no-iat'' = Inr (example_claims ''no-iat'')
   \<and> clm_IssuedAt (example_claims ''no-iat'') = 0
   \<and> issuedAtCheckEnabled example_ca
   \<and> fst (Authorize example_jose example_now example_ca ''no-iat'')
        \<noteq> Inl (bootstrapError ''no-iat'')
   \<and> fst (Authorize example_jose example_now example_ca ''no-iat'') = Inr [''opt'']
   \<and> ParseSigned example_jose ''wrapping-iat'' = Inr ''wrapping-iat''
   \<and> UnsafeClaimsWithoutVerification example_jose ''wrapping-iat''
        = Inr (example_claims ''wrapping-iat'')
   \<and> sint (clm_IssuedAt (example_claims ''wrapping-iat'')) = 9223372036854774784
   \<and> Before (NumericDate_Time (clm_IssuedAt (example_claims ''wrapping-iat'')))
        (startTime example_ca)
   \<and> fst (Authorize example_jose example_now example_ca ''wrapping-iat'')
        = Inl (bootstrapError ''wrapping-iat'')"
proof -
  have p: "ParseSigned example_jose ''no-iat'' = Inr ''no-iat''"
    by (simp add: example_jose_def)
  have c: "UnsafeClaimsWithoutVerification example_jose ''no-iat''
             = Inr (example_claims ''no-iat'')"
    by (simp add: example_jose_def)
  have z: "clm_IssuedAt (example_claims ''no-iat'') = 0"
    by (simp add: example_claims_def)
  have e: "issuedAtCheckEnabled example_ca"
    by (simp add: issuedAtCheckEnabled_def example_ca_def)
  note T = Authorize_no_issuedAt_passes
             [of example_jose _ _ _ example_now example_ca
                 "clm_IssuedAt (example_claims ''wrapping-iat'')" "startTime example_ca"]
  from T [of "''no-iat''" "''no-iat''" "example_claims ''no-iat''"] p c z
  have r: "fst (Authorize example_jose example_now example_ca ''no-iat'')
             \<noteq> Inl (bootstrapError ''no-iat'')"
    by blast
  have v: "fst (Authorize example_jose example_now example_ca ''no-iat'') = Inr [''opt'']"
    by (simp add: Authorize_def example_jose_def example_claims_def example_ca_def
        issuedBeforeBootstrap_def issuedAtCheckEnabled_def example_Provisioner_def
        LoadOrStore_def Let_def)
  have p': "ParseSigned example_jose ''wrapping-iat'' = Inr ''wrapping-iat''"
    by (simp add: example_jose_def)
  have c': "UnsafeClaimsWithoutVerification example_jose ''wrapping-iat''
             = Inr (example_claims ''wrapping-iat'')"
    by (simp add: example_jose_def)
  have i: "sint (clm_IssuedAt (example_claims ''wrapping-iat'')) = 9223372036854774784"
    by (simp add: example_claims_def)
  have w: "2 ^ 63 - 62135596800 \<le> sint (clm_IssuedAt (example_claims ''wrapping-iat''))"
    by (simp add: i)
  from T [of "''wrapping-iat''" "''wrapping-iat''" "example_claims ''wrapping-iat''"] w
  have b: "Before (NumericDate_Time (clm_IssuedAt (example_claims ''wrapping-iat'')))
             (startTime example_ca)"
    by (simp add: i example_ca_def)
  from T [of "''wrapping-iat''" "''wrapping-iat''" "example_claims ''wrapping-iat''"]
    p' c' e i b
  have x: "fst (Authorize example_jose example_now example_ca ''wrapping-iat'')
             = Inl (bootstrapError ''wrapping-iat'')"
    by simp
  from p c z e r v p' c' i b x show ?thesis by (intro conjI)
qed

section \<open>Properties of audience matching\<close>
























lemma CTL_Nil: "\<not> stringContainsCTLByte []"
  by (simp add: stringContainsCTLByte_def)




















end
